theory Spec2Isabelle
  imports Main "HOL-Library.Word"
begin

section \<open>Values, errors and the libraries the package calls\<close>

text \<open>
  Byte arrays are lists of 8-bit words, bn.js numbers are natural numbers, and a thrown
  exception is the left summand of a sum type. \<open>RangeError\<close> is what JavaScript raises
  when the call stack is exhausted, \<open>AssertionError\<close> what a failing \<open>assert\<close> raises,
  \<open>Error msg\<close> is \<open>throw new Error(msg)\<close>, and \<open>LibraryError\<close> stands for whatever
  one of the external packages throws.
\<close>

type_synonym byte = "8 word"
type_synonym bytes = "byte list"

datatype error =
    Error string
  | AssertionError
  | RangeError
  | TypeError
  | LibraryError string

datatype KeyType = Secp256k1 | Ed25519

text \<open>
  An elliptic key object of the secp256k1 curve holds a private number or a public point;
  \<open>getPublic\<close> multiplies the base point by the private number when only that is known.
  An EdDSA key object holds the secret bytes or the public bytes it was made from.
\<close>

datatype 'pt ec_key = KeyFromPrivate nat | KeyFromPublic 'pt

datatype ed_key = KeyFromSecret bytes | EdKeyFromPublic bytes

text \<open>
  The external packages (hash.js, elliptic, bn.js's string parser, ripple-address-codec)
  are parameters of the model: every definition below takes the record \<open>L\<close> of their
  operations, and every theorem holds for all of them.
  \<^item> \<open>sha512 m\<close> is \<open>hashjs.sha512().update(m).digest()\<close>;
  \<^item> \<open>curve_n\<close> is \<open>secp256k1.curve.n\<close>, \<open>g_mul k\<close> is \<open>secp256k1.g.mul(k)\<close>,
    \<open>encodeCompressed\<close> and \<open>decodePoint\<close> are the point codec (\<open>keyFromPublic\<close>
    decodes the point at once and may throw);
  \<open>ecdsa_sign key digest\<close> is \<open>key.sign(digest, {canonical: true}).toDER()\<close> and
    \<open>ecdsa_verify key digest signature\<close> is \<open>key.verify(digest, signature)\<close>;
  \<^item> \<open>eddsa_pubBytes key\<close> is \<open>key.pubBytes()\<close>, \<open>eddsa_sign key m\<close> is
    \<open>key.sign(m).toBytes()\<close>, \<open>eddsa_verify key m s\<close> is \<open>key.verify(m, s)\<close>;
  \<^item> \<open>bn_hex s\<close> is the magnitude of \<open>new BN(s, 16)\<close>, \<open>toArray_hex s\<close> is elliptic's
    \<open>parseBytes\<close> on a string, \<open>decodeNodePublic\<close> and \<open>decodeSeed\<close> are the codec's.
\<close>

record 'pt crypto =
  sha512 :: "bytes \<Rightarrow> bytes"
  curve_n :: nat
  g_mul :: "nat \<Rightarrow> 'pt"
  encodeCompressed :: "'pt \<Rightarrow> bytes"
  decodePoint :: "bytes \<Rightarrow> error + 'pt"
  ecdsa_sign :: "'pt ec_key \<Rightarrow> bytes \<Rightarrow> error + bytes"
  ecdsa_verify :: "'pt ec_key \<Rightarrow> bytes \<Rightarrow> bytes \<Rightarrow> error + bool"
  eddsa_pubBytes :: "ed_key \<Rightarrow> error + bytes"
  eddsa_sign :: "ed_key \<Rightarrow> bytes \<Rightarrow> error + bytes"
  eddsa_verify :: "ed_key \<Rightarrow> bytes \<Rightarrow> bytes \<Rightarrow> error + bool"
  bn_hex :: "string \<Rightarrow> nat"
  toArray_hex :: "string \<Rightarrow> bytes"
  decodeNodePublic :: "string \<Rightarrow> error + bytes"
  decodeSeed :: "string \<Rightarrow> error + (KeyType \<times> bytes)"

definition getPublic :: "'pt crypto \<Rightarrow> 'pt ec_key \<Rightarrow> 'pt" where
  "getPublic L k = (case k of KeyFromPrivate d \<Rightarrow> g_mul L d | KeyFromPublic p \<Rightarrow> p)"

subsection \<open>bn.js numbers\<close>

text \<open>\<open>new BN(bytes)\<close> reads an array big-endian.\<close>

definition bn_of_bytes :: "bytes \<Rightarrow> nat" where
  "bn_of_bytes bs = foldl (\<lambda>acc b. acc * 256 + unat b) 0 bs"

text \<open>
  \<open>n.toArray('be', length)\<close>: the number in \<open>length\<close> bytes, most significant first,
  padded with zeros; bn.js asserts that the number fits, and takes \<open>length\<close> 0 (falsy)
  as no length, which gives the bytes the number needs and at least one.
\<close>

fun bn_byteLength :: "nat \<Rightarrow> nat" where
  "bn_byteLength n = (if n = 0 then 0 else Suc (bn_byteLength (n div 256)))"

declare bn_byteLength.simps [simp del]

primrec be_bytes :: "nat \<Rightarrow> nat \<Rightarrow> bytes" where
  "be_bytes 0 n = []"
| "be_bytes (Suc len) n = be_bytes len (n div 256) @ [of_nat n]"

definition bn_toArray :: "nat \<Rightarrow> nat \<Rightarrow> error + bytes" where
  "bn_toArray n len =
     (let byteLength = bn_byteLength n;
          reqLength = (if len = 0 then max 1 byteLength else len)
      in if byteLength \<le> reqLength then Inr (be_bytes reqLength n) else Inl AssertionError)"

text \<open>
  \<open>n.toString(16, padding)\<close>: the lower-case hexadecimal digits of the number, with
  zeros in front until the length is a multiple of \<open>padding\<close>. \<open>toString_16\<close> is
  also what \<open>Number.prototype.toString(16)\<close> gives for a byte.
\<close>

definition hex_digit :: "nat \<Rightarrow> char" where
  "hex_digit d = ''0123456789abcdef'' ! d"

fun toString_16 :: "nat \<Rightarrow> string" where
  "toString_16 n =
     (if n < 16 then [hex_digit n] else toString_16 (n div 16) @ [hex_digit (n mod 16)])"

declare toString_16.simps [simp del]

definition bn_toString :: "nat \<Rightarrow> nat \<Rightarrow> string" where
  "bn_toString n padding =
     (let out = toString_16 n
      in replicate ((padding - length out mod padding) mod padding) CHR ''0'' @ out)"

definition toUpperCase :: "string \<Rightarrow> string" where
  "toUpperCase s =
     map (\<lambda>c. let k = (of_char c :: nat) in if 97 \<le> k \<and> k \<le> 122 then char_of (k - 32) else c) s"

text \<open>hash.js reads an undefined message as the empty one.\<close>

definition hashed :: "bytes option \<Rightarrow> bytes" where
  "hashed m = (case m of None \<Rightarrow> [] | Some bs \<Rightarrow> bs)"

section \<open>The hash chain (sha512.js)\<close>

text \<open>
  Modelled from the spec: sha512.js, the \<open>Sha512\<close> class, is not among the sources.
  The spec (4.1) gives its contract: repeated appends of byte sequences, a convenience
  append of a big-endian 32-bit integer, a 64-byte digest on finalisation, an accessor
  for the first 32 bytes of the digest and one for them read as a big integer. The
  state of a hasher is the bytes appended so far; the digest is hash.js's.
\<close>

type_synonym Sha512 = bytes

definition Sha512_new :: Sha512 where
  "Sha512_new = []"

definition Sha512_add :: "Sha512 \<Rightarrow> bytes \<Rightarrow> Sha512" where
  "Sha512_add h bs = h @ bs"

definition u32_be :: "32 word \<Rightarrow> bytes" where
  "u32_be w = [ucast (drop_bit 24 w), ucast (drop_bit 16 w), ucast (drop_bit 8 w), ucast w]"

definition Sha512_addU32 :: "Sha512 \<Rightarrow> 32 word \<Rightarrow> Sha512" where
  "Sha512_addU32 h w = Sha512_add h (u32_be w)"

definition Sha512_finish :: "'pt crypto \<Rightarrow> Sha512 \<Rightarrow> bytes" where
  "Sha512_finish L h = sha512 L h"

definition Sha512_first256 :: "'pt crypto \<Rightarrow> Sha512 \<Rightarrow> bytes" where
  "Sha512_first256 L h = take 32 (Sha512_finish L h)"

definition Sha512_first256BN :: "'pt crypto \<Rightarrow> Sha512 \<Rightarrow> nat" where
  "Sha512_first256BN L h = bn_of_bytes (Sha512_first256 L h)"

section \<open>Scalar derivation (secp256k1.js)\<close>

text \<open>
  \<open>deriveScalar(bytes, discrim)\<close>: the \<open>for\<close> loop over \<open>i = 0 .. 0xFFFFFFFF\<close> is the
  recursion on \<open>i\<close>; leaving the loop reaches the \<open>throw\<close>. The counter is a JavaScript
  number, so it does not wrap. \<open>discrim\<close> is \<open>None\<close> when the argument is undefined,
  and an unsigned 32-bit integer otherwise, as the specification has it.
\<close>

function deriveScalar_loop ::
  "'pt crypto \<Rightarrow> bytes \<Rightarrow> 32 word option \<Rightarrow> nat \<Rightarrow> error + nat" where
  "deriveScalar_loop L bs discrim i =
     (if i \<le> 0xFFFFFFFF then
        (let order = curve_n L;
             hasher = Sha512_add Sha512_new bs;
             hasher = (case discrim of None \<Rightarrow> hasher | Some d \<Rightarrow> Sha512_addU32 hasher d);
             hasher = Sha512_addU32 hasher (of_nat i);
             key = Sha512_first256BN L hasher
         in if key > 0 \<and> key < order then Inr key
            else deriveScalar_loop L bs discrim (i + 1))
      else Inl (Error ''impossible unicorn ;)''))"
  by pat_completeness auto
termination
  by (relation "measure (\<lambda>(L, bs, discrim, i). 4294967296 - i)") auto

declare deriveScalar_loop.simps [simp del]

definition deriveScalar :: "'pt crypto \<Rightarrow> bytes \<Rightarrow> 32 word option \<Rightarrow> error + nat" where
  "deriveScalar L bs discrim = deriveScalar_loop L bs discrim 0"

text \<open>
  \<open>deriveSecret(seed, opts = {})\<close>. \<open>opts.validator\<close> is read for its truth value and
  \<open>opts.accountIndex || 0\<close> is 0 when the index is undefined (or 0).
\<close>

record opts =
  validator :: bool
  accountIndex :: "32 word option"

definition deriveSecret :: "'pt crypto \<Rightarrow> bytes \<Rightarrow> opts \<Rightarrow> error + nat" where
  "deriveSecret L seed os =
     (let root = validator os; order = curve_n L in
      case deriveScalar L seed None of
        Inl e \<Rightarrow> Inl e
      | Inr privateGen \<Rightarrow>
          if root then Inr privateGen
          else
            (let publicGen = g_mul L privateGen;
                 accountIdx = (case accountIndex os of None \<Rightarrow> 0 | Some a \<Rightarrow> a)
             in case deriveScalar L (encodeCompressed L publicGen) (Some accountIdx) of
                  Inl e \<Rightarrow> Inl e
                | Inr s \<Rightarrow> Inr ((s + privateGen) mod order)))"

section \<open>The algorithm as the specification words it\<close>

text \<open>
  The candidate of counter \<open>i\<close>: the first 32 bytes of the hash of the bytes, then the
  discriminator (if present) as a big-endian u32, then \<open>i\<close> as a big-endian u32, read as a
  big-endian unsigned integer. A candidate is accepted when it lies strictly between 0
  and the curve order.
\<close>

definition candidate :: "'pt crypto \<Rightarrow> bytes \<Rightarrow> 32 word option \<Rightarrow> nat \<Rightarrow> nat" where
  "candidate L bs discrim i =
     bn_of_bytes (take 32 (sha512 L
       (bs @ (case discrim of None \<Rightarrow> [] | Some d \<Rightarrow> u32_be d) @ u32_be (of_nat i))))"

definition accepted :: "'pt crypto \<Rightarrow> nat \<Rightarrow> bool" where
  "accepted L k = (0 < k \<and> k < curve_n L)"

section \<open>Key pairs (keypair.js)\<close>

text \<open>
  A key pair object is a record of the properties the code reads or writes; a property
  that holds \<open>undefined\<close> is \<open>None\<close>. The constructor stores its three options under
  \<open>_seedBytes\<close>, \<open>_publicBytes\<close> and \<open>_privateBytes\<close> (\<open>this__seedBytes\<close> and so on
  here). A memoised method \<open>m\<close> keeps its result in the property \<open>_m\<close>: it returns that
  property when it is defined, and otherwise computes the value, stores it and returns
  it. \<open>this__key\<close> is the memo of \<open>key()\<close>, whose type depends on the curve.
\<close>

record 'k KeyPair =
  this__seedBytes :: "bytes option"
  this__publicBytes :: "bytes option"
  this__privateBytes :: "bytes option"
  this_type :: "KeyType option"
  this__key :: "'k option"

text \<open>\<open>hasPrivateKey()\<close>: \<open>this._privateBytes || this._seedBytes\<close>, read for its truth value.\<close>

definition hasPrivateKey :: "('k, 'more) KeyPair_scheme \<Rightarrow> bool" where
  "hasPrivateKey this = (this__privateBytes this \<noteq> None \<or> this__seedBytes this \<noteq> None)"

section \<open>The secp256k1 key pair, class syntax (secp256k1.js)\<close>

text \<open>
  The object of \<open>class K256Pair extends KeyPair\<close>. Besides the inherited properties it
  has \<open>validator\<close>, the memo \<open>_pubKeyCanonicalBytes\<close>, and the property \<open>seedBytes\<close>
  that \<open>key()\<close> reads: no constructor and no method assigns it.
\<close>

record 'pt K256Pair = "'pt ec_key KeyPair" +
  this_validator :: bool
  this_seedBytes :: "bytes option"
  this__pubKeyCanonicalBytes :: "bytes option"

definition K256Pair_constructor ::
  "bytes option \<Rightarrow> bytes option \<Rightarrow> bytes option \<Rightarrow> bool \<Rightarrow> 'pt K256Pair" where
  "K256Pair_constructor seedBytes publicBytes privateBytes vald =
     \<lparr> this__seedBytes = seedBytes, this__publicBytes = publicBytes,
       this__privateBytes = privateBytes, this_type = Some Secp256k1, this__key = None,
       this_validator = vald, this_seedBytes = None, this__pubKeyCanonicalBytes = None \<rparr>"

definition K256Pair_fromSeed :: "bytes \<Rightarrow> opts \<Rightarrow> 'pt K256Pair" where
  "K256Pair_fromSeed seedBytes os = K256Pair_constructor (Some seedBytes) None None (validator os)"

definition keyFromPublic :: "'pt crypto \<Rightarrow> bytes \<Rightarrow> error + 'pt ec_key" where
  "keyFromPublic L bs = (case decodePoint L bs of Inl e \<Rightarrow> Inl e | Inr p \<Rightarrow> Inr (KeyFromPublic p))"

text \<open>
  \<open>key()\<close> and \<open>pubKeyCanonicalBytes()\<close> call each other. The second argument bounds the
  nesting of these calls, as the call stack does: a call that finds no frame left raises
  \<open>RangeError\<close>. A method returns its value and the object with the memos it filled;
  a call that throws is abandoned, and the error is all that is kept of it.
\<close>

fun K256Pair_key ::
    "'pt crypto \<Rightarrow> nat \<Rightarrow> 'pt K256Pair \<Rightarrow> error + ('pt ec_key \<times> 'pt K256Pair)"
  and K256Pair_pubKeyCanonicalBytes ::
    "'pt crypto \<Rightarrow> nat \<Rightarrow> 'pt K256Pair \<Rightarrow> error + (bytes \<times> 'pt K256Pair)" where
  "K256Pair_key L 0 this = Inl RangeError"
| "K256Pair_key L (Suc depth) this =
     (case this__key this of
        Some memo \<Rightarrow> Inr (memo, this)
      | None \<Rightarrow>
          (case (case this_seedBytes this of
                   Some seedBytes \<Rightarrow>
                     (case deriveSecret L seedBytes
                             \<lparr>validator = this_validator this, accountIndex = None\<rparr> of
                        Inl e \<Rightarrow> Inl e
                      | Inr secret \<Rightarrow> Inr (KeyFromPrivate secret, this))
                 | None \<Rightarrow>
                     (case K256Pair_pubKeyCanonicalBytes L depth this of
                        Inl e \<Rightarrow> Inl e
                      | Inr (pub, this') \<Rightarrow>
                          (case keyFromPublic L pub of
                             Inl e \<Rightarrow> Inl e
                           | Inr k \<Rightarrow> Inr (k, this')))) of
             Inl e \<Rightarrow> Inl e
           | Inr (k, this') \<Rightarrow> Inr (k, this'\<lparr>this__key := Some k\<rparr>)))"
| "K256Pair_pubKeyCanonicalBytes L 0 this = Inl RangeError"
| "K256Pair_pubKeyCanonicalBytes L (Suc depth) this =
     (case this__pubKeyCanonicalBytes this of
        Some memo \<Rightarrow> Inr (memo, this)
      | None \<Rightarrow>
          (case K256Pair_key L depth this of
             Inl e \<Rightarrow> Inl e
           | Inr (k, this') \<Rightarrow>
               (let pub = encodeCompressed L (getPublic L k)
                in Inr (pub, this'\<lparr>this__pubKeyCanonicalBytes := Some pub\<rparr>))))"

definition K256Pair_hashMessage :: "'pt crypto \<Rightarrow> bytes \<Rightarrow> bytes" where
  "K256Pair_hashMessage L message = take 32 (sha512 L message)"

definition K256Pair_createSignature ::
  "'pt crypto \<Rightarrow> nat \<Rightarrow> 'pt K256Pair \<Rightarrow> bytes \<Rightarrow> error + (bytes \<times> 'pt K256Pair)" where
  "K256Pair_createSignature L depth this message =
     (case K256Pair_key L depth this of
        Inl e \<Rightarrow> Inl e
      | Inr (k, this') \<Rightarrow>
          (case ecdsa_sign L k (K256Pair_hashMessage L message) of
             Inl e \<Rightarrow> Inl e
           | Inr der \<Rightarrow> Inr (der, this')))"

definition K256Pair_sign ::
  "'pt crypto \<Rightarrow> nat \<Rightarrow> 'pt K256Pair \<Rightarrow> bytes \<Rightarrow> error + (bytes \<times> 'pt K256Pair)" where
  "K256Pair_sign L depth this message = K256Pair_createSignature L depth this message"

text \<open>
  \<open>verify(message, signature)\<close>, the parameters in the order this file declares them:
  the body runs inside \<open>try\<close>, and the \<open>catch\<close> returns false for every exception.
\<close>

definition K256Pair_verify ::
  "'pt crypto \<Rightarrow> nat \<Rightarrow> 'pt K256Pair \<Rightarrow> bytes \<Rightarrow> bytes \<Rightarrow> error + bool" where
  "K256Pair_verify L depth this message signature =
     (case (case K256Pair_key L depth this of
              Inl e \<Rightarrow> Inl e
            | Inr (k, this') \<Rightarrow> ecdsa_verify L k (K256Pair_hashMessage L message) signature) of
        Inl e \<Rightarrow> Inr False
      | Inr b \<Rightarrow> Inr b)"

section \<open>Helpers (utils.js)\<close>

text \<open>
  \<open>bytesToHex\<close>: two upper-case hexadecimal digits per byte. \<open>hexToBytes\<close> (the file
  that defines it is one of the unnamed ones): \<open>assert(a.length % 2 === 0)\<close>, then
  \<open>new BN(a, 16).toArray(null, a.length / 2)\<close>.
\<close>

definition bytesToHex :: "bytes \<Rightarrow> string" where
  "bytesToHex a =
     concat (map (\<lambda>byteValue.
       let hex = toUpperCase (toString_16 (unat byteValue))
       in if length hex > 1 then hex else ''0'' @ hex) a)"

definition hexToBytes :: "'pt crypto \<Rightarrow> string \<Rightarrow> error + bytes" where
  "hexToBytes L a =
     (if length a mod 2 = 0 then bn_toArray (bn_hex L a) (length a div 2)
      else Inl AssertionError)"

text \<open>A key reaches the package as a string or as an array of bytes.\<close>

datatype key_input = KeyString string | KeyArray bytes

definition parseBytes :: "'pt crypto \<Rightarrow> key_input \<Rightarrow> bytes" where
  "parseBytes L k = (case k of KeyString s \<Rightarrow> toArray_hex L s | KeyArray a \<Rightarrow> a)"

definition parsePublicKey :: "'pt crypto \<Rightarrow> key_input \<Rightarrow> error + bytes" where
  "parsePublicKey L publicKey =
     (case publicKey of
        KeyString s \<Rightarrow>
          (case s of
             c # cs \<Rightarrow> if c = CHR ''n'' then decodeNodePublic L s
                       else Inr (parseBytes L publicKey)
           | [] \<Rightarrow> Inr (parseBytes L publicKey))
      | KeyArray a \<Rightarrow> Inr (parseBytes L publicKey))"

text \<open>
  \<open>parseKey\<close>: \<open>bytes.length === 33 && bytes[0] === 0xED ? 'ed25519' : 'secp256k1'\<close>;
  \<open>bytes[0]\<close> of an empty array is undefined, which is not \<open>0xED\<close>.
\<close>

definition parseKey :: "'pt crypto \<Rightarrow> key_input \<Rightarrow> error + (KeyType \<times> bytes)" where
  "parseKey L k =
     (case parsePublicKey L k of
        Inl e \<Rightarrow> Inl e
      | Inr bs \<Rightarrow>
          Inr (if length bs = 33 \<and> (case bs of [] \<Rightarrow> False | b # _ \<Rightarrow> b = 0xED)
               then Ed25519 else Secp256k1, bs))"

section \<open>The secp256k1 key pair, extendClass syntax (an unnamed source file)\<close>

text \<open>
  The sibling of secp256k1.js that builds \<open>K256Pair\<close> with \<open>extendClass\<close>. Its
  \<open>deriveScalar\<close> is the one above line by line, and its \<open>derivePrivate\<close> is
  \<open>deriveSecret\<close> line by line. Its memoised methods are \<open>publicBytes\<close>,
  \<open>privateBytes\<close> and \<open>key\<close>, so the memos of the first two are the properties
  \<open>_publicBytes\<close> and \<open>_privateBytes\<close> that the constructor stores.
\<close>

definition derivePrivate :: "'pt crypto \<Rightarrow> bytes \<Rightarrow> opts \<Rightarrow> error + nat" where
  "derivePrivate L seed os = deriveSecret L seed os"

definition K256Pair_ext_fromSeed :: "bytes \<Rightarrow> opts \<Rightarrow> 'pt K256Pair" where
  "K256Pair_ext_fromSeed seedBytes os =
     K256Pair_constructor (Some seedBytes) None None (validator os)"

definition K256Pair_ext_fromPublic :: "'pt crypto \<Rightarrow> key_input \<Rightarrow> error + 'pt K256Pair" where
  "K256Pair_ext_fromPublic L publicKey =
     (case parsePublicKey L publicKey of
        Inl e \<Rightarrow> Inl e
      | Inr bs \<Rightarrow> Inr (K256Pair_constructor None (Some bs) None False))"

definition K256Pair_ext_fromPrivate :: "'pt crypto \<Rightarrow> key_input \<Rightarrow> 'pt K256Pair" where
  "K256Pair_ext_fromPrivate L privateKey =
     K256Pair_constructor None None (Some (parseBytes L privateKey)) False"

text \<open>
  \<open>_private()\<close> is \<open>this._privateBytes || derivePrivate(this._seedBytes, ...)\<close>: an
  array of bytes or a bn.js number. elliptic's \<open>keyFromPrivate\<close> reads either; an array
  has no \<open>toArray\<close> method.
\<close>

datatype private_value = PrivateBytes bytes | PrivateBN nat

definition keyFromPrivate :: "private_value \<Rightarrow> 'pt ec_key" where
  "keyFromPrivate v =
     KeyFromPrivate (case v of PrivateBytes bs \<Rightarrow> bn_of_bytes bs | PrivateBN n \<Rightarrow> n)"

definition K256Pair_ext_private :: "'pt crypto \<Rightarrow> 'pt K256Pair \<Rightarrow> error + private_value" where
  "K256Pair_ext_private L this =
     (case this__privateBytes this of
        Some bs \<Rightarrow> Inr (PrivateBytes bs)
      | None \<Rightarrow>
          (case derivePrivate L (hashed (this__seedBytes this))
                  \<lparr>validator = this_validator this, accountIndex = None\<rparr> of
             Inl e \<Rightarrow> Inl e
           | Inr n \<Rightarrow> Inr (PrivateBN n)))"


fun K256Pair_ext_key ::
    "'pt crypto \<Rightarrow> nat \<Rightarrow> 'pt K256Pair \<Rightarrow> error + ('pt ec_key \<times> 'pt K256Pair)"
  and K256Pair_ext_publicBytes ::
    "'pt crypto \<Rightarrow> nat \<Rightarrow> 'pt K256Pair \<Rightarrow> error + (bytes \<times> 'pt K256Pair)" where
  "K256Pair_ext_key L 0 this = Inl RangeError"
| "K256Pair_ext_key L (Suc depth) this =
     (case this__key this of
        Some memo \<Rightarrow> Inr (memo, this)
      | None \<Rightarrow>
          (case (if hasPrivateKey this then
                   (case K256Pair_ext_private L this of
                      Inl e \<Rightarrow> Inl e
                    | Inr p \<Rightarrow> Inr (keyFromPrivate p, this))
                 else
                   (case K256Pair_ext_publicBytes L depth this of
                      Inl e \<Rightarrow> Inl e
                    | Inr (pub, this') \<Rightarrow>
                        (case keyFromPublic L pub of
                           Inl e \<Rightarrow> Inl e
                         | Inr k \<Rightarrow> Inr (k, this')))) of
             Inl e \<Rightarrow> Inl e
           | Inr (k, this') \<Rightarrow> Inr (k, this'\<lparr>this__key := Some k\<rparr>)))"
| "K256Pair_ext_publicBytes L 0 this = Inl RangeError"
| "K256Pair_ext_publicBytes L (Suc depth) this =
     (case this__publicBytes this of
        Some memo \<Rightarrow> Inr (memo, this)
      | None \<Rightarrow>
          (case K256Pair_ext_key L depth this of
             Inl e \<Rightarrow> Inl e
           | Inr (k, this') \<Rightarrow>
               (let pub = encodeCompressed L (getPublic L k)
                in Inr (pub, this'\<lparr>this__publicBytes := Some pub\<rparr>))))"

definition K256Pair_ext_hashMessage :: "'pt crypto \<Rightarrow> bytes \<Rightarrow> bytes" where
  "K256Pair_ext_hashMessage L message = Sha512_first256 L (Sha512_add Sha512_new message)"

definition K256Pair_ext_sign ::
  "'pt crypto \<Rightarrow> nat \<Rightarrow> 'pt K256Pair \<Rightarrow> bytes \<Rightarrow> error + (bytes \<times> 'pt K256Pair)" where
  "K256Pair_ext_sign L depth this message =
     (case K256Pair_ext_key L depth this of
        Inl e \<Rightarrow> Inl e
      | Inr (k, this') \<Rightarrow>
          (case ecdsa_sign L k (K256Pair_ext_hashMessage L message) of
             Inl e \<Rightarrow> Inl e
           | Inr der \<Rightarrow> Inr (der, this')))"

text \<open>\<open>verify(signature, message)\<close>, again inside \<open>try\<close> with a \<open>catch\<close> that returns false.\<close>

definition K256Pair_ext_verify ::
  "'pt crypto \<Rightarrow> nat \<Rightarrow> 'pt K256Pair \<Rightarrow> bytes \<Rightarrow> bytes \<Rightarrow> error + bool" where
  "K256Pair_ext_verify L depth this signature message =
     (case (case K256Pair_ext_key L depth this of
              Inl e \<Rightarrow> Inl e
            | Inr (k, this') \<Rightarrow> ecdsa_verify L k (K256Pair_ext_hashMessage L message) signature) of
        Inl e \<Rightarrow> Inr False
      | Inr b \<Rightarrow> Inr b)"

section \<open>The ed25519 key pair (ed25519.js)\<close>

definition deriveEdKeyPairPrivate :: "'pt crypto \<Rightarrow> bytes \<Rightarrow> bytes" where
  "deriveEdKeyPairPrivate L seed = Sha512_first256 L (Sha512_add Sha512_new seed)"

text \<open>
  The memoised methods are \<open>publicBytes\<close>, \<open>privateBytes\<close>, \<open>_privateKeySigningBytes\<close>
  and \<open>key\<close>: the memo of the third is the property \<open>__privateKeySigningBytes\<close>.
\<close>

record Ed25519Pair = "ed_key KeyPair" +
  this___privateKeySigningBytes :: "bytes option"

definition Ed25519Pair_constructor ::
  "bytes option \<Rightarrow> bytes option \<Rightarrow> bytes option \<Rightarrow> Ed25519Pair" where
  "Ed25519Pair_constructor seedBytes publicBytes privateBytes =
     \<lparr> this__seedBytes = seedBytes, this__publicBytes = publicBytes,
       this__privateBytes = privateBytes, this_type = Some Ed25519, this__key = None,
       this___privateKeySigningBytes = None \<rparr>"

definition Ed25519Pair_fromPublic :: "'pt crypto \<Rightarrow> key_input \<Rightarrow> Ed25519Pair" where
  "Ed25519Pair_fromPublic L publicKey =
     Ed25519Pair_constructor None (Some (parseBytes L publicKey)) None"

definition Ed25519Pair_fromPrivate :: "'pt crypto \<Rightarrow> key_input \<Rightarrow> Ed25519Pair" where
  "Ed25519Pair_fromPrivate L privateKey =
     Ed25519Pair_constructor None None (Some (parseBytes L privateKey))"

definition Ed25519Pair_fromSeed :: "bytes \<Rightarrow> Ed25519Pair" where
  "Ed25519Pair_fromSeed seedBytes = Ed25519Pair_constructor (Some seedBytes) None None"

definition Ed25519Pair_privateKeySigningBytes ::
  "'pt crypto \<Rightarrow> Ed25519Pair \<Rightarrow> bytes \<times> Ed25519Pair" where
  "Ed25519Pair_privateKeySigningBytes L this =
     (case this___privateKeySigningBytes this of
        Some memo \<Rightarrow> (memo, this)
      | None \<Rightarrow>
          (let v = (case this__privateBytes this of
                      Some privateBytes \<Rightarrow> drop 1 privateBytes
                    | None \<Rightarrow> deriveEdKeyPairPrivate L (hashed (this__seedBytes this)))
           in (v, this\<lparr>this___privateKeySigningBytes := Some v\<rparr>)))"


fun Ed25519Pair_key ::
    "'pt crypto \<Rightarrow> nat \<Rightarrow> Ed25519Pair \<Rightarrow> error + (ed_key \<times> Ed25519Pair)"
  and Ed25519Pair_publicBytes ::
    "'pt crypto \<Rightarrow> nat \<Rightarrow> Ed25519Pair \<Rightarrow> error + (bytes \<times> Ed25519Pair)" where
  "Ed25519Pair_key L 0 this = Inl RangeError"
| "Ed25519Pair_key L (Suc depth) this =
     (case this__key this of
        Some memo \<Rightarrow> Inr (memo, this)
      | None \<Rightarrow>
          (case (if hasPrivateKey this then
                   (let (secret, this') = Ed25519Pair_privateKeySigningBytes L this
                    in Inr (KeyFromSecret secret, this'))
                 else
                   (case Ed25519Pair_publicBytes L depth this of
                      Inl e \<Rightarrow> Inl e
                    | Inr (pub, this') \<Rightarrow> Inr (EdKeyFromPublic (drop 1 pub), this'))) of
             Inl e \<Rightarrow> Inl e
           | Inr (k, this') \<Rightarrow> Inr (k, this'\<lparr>this__key := Some k\<rparr>)))"
| "Ed25519Pair_publicBytes L 0 this = Inl RangeError"
| "Ed25519Pair_publicBytes L (Suc depth) this =
     (case this__publicBytes this of
        Some memo \<Rightarrow> Inr (memo, this)
      | None \<Rightarrow>
          (case Ed25519Pair_key L depth this of
             Inl e \<Rightarrow> Inl e
           | Inr (k, this') \<Rightarrow>
               (case eddsa_pubBytes L k of
                  Inl e \<Rightarrow> Inl e
                | Inr pubBytes \<Rightarrow>
                    (let v = 0xED # pubBytes
                     in Inr (v, this'\<lparr>this__publicBytes := Some v\<rparr>)))))"

definition Ed25519Pair_sign ::
  "'pt crypto \<Rightarrow> nat \<Rightarrow> Ed25519Pair \<Rightarrow> bytes \<Rightarrow> error + (bytes \<times> Ed25519Pair)" where
  "Ed25519Pair_sign L depth this message =
     (case Ed25519Pair_key L depth this of
        Inl e \<Rightarrow> Inl e
      | Inr (k, this') \<Rightarrow>
          (case eddsa_sign L k message of
             Inl e \<Rightarrow> Inl e
           | Inr sg \<Rightarrow> Inr (sg, this')))"

text \<open>\<open>verify(signature, message)\<close>: \<open>return this.key().verify(message, signature)\<close>, no \<open>try\<close>.\<close>

definition Ed25519Pair_verify ::
  "'pt crypto \<Rightarrow> nat \<Rightarrow> Ed25519Pair \<Rightarrow> bytes \<Rightarrow> bytes \<Rightarrow> error + bool" where
  "Ed25519Pair_verify L depth this signature message =
     (case Ed25519Pair_key L depth this of
        Inl e \<Rightarrow> Inl e
      | Inr (k, this') \<Rightarrow> eddsa_verify L k message signature)"

section \<open>The functional interface (api.js)\<close>

text \<open>
  Keys and signatures are hexadecimal text here. \<open>deriveKeypair\<close> returns the object
  \<open>{privateKey, publicKey}\<close>. elliptic reads the text of a private key with
  \<open>new BN(text, 16)\<close> and the text of a signature as it reads bytes from a string.
\<close>

record keypair =
  privateKey :: string
  publicKey :: string

definition api_secp256k1_deriveKeypair :: "'pt crypto \<Rightarrow> bytes \<Rightarrow> opts \<Rightarrow> error + keypair" where
  "api_secp256k1_deriveKeypair L entropy os =
     (let prefix = ''00'' in
      case deriveSecret L entropy os of
        Inl e \<Rightarrow> Inl e
      | Inr secret \<Rightarrow>
          (let privKey = prefix @ toUpperCase (bn_toString secret 64);
               pubKey = bytesToHex (encodeCompressed L
                          (getPublic L (KeyFromPrivate (bn_hex L privKey))))
           in Inr \<lparr>privateKey = privKey, publicKey = pubKey\<rparr>))"

definition api_secp256k1_sign :: "'pt crypto \<Rightarrow> bytes \<Rightarrow> string \<Rightarrow> error + string" where
  "api_secp256k1_sign L message privKey =
     (let digest = take 32 (sha512 L message) in
      case hexToBytes L privKey of
        Inl e \<Rightarrow> Inl e
      | Inr bs \<Rightarrow>
          (case ecdsa_sign L (keyFromPrivate (PrivateBytes bs)) digest of
             Inl e \<Rightarrow> Inl e
           | Inr der \<Rightarrow> Inr (bytesToHex der)))"

definition api_secp256k1_verify ::
  "'pt crypto \<Rightarrow> string \<Rightarrow> bytes \<Rightarrow> string \<Rightarrow> error + bool" where
  "api_secp256k1_verify L signature message pubKey =
     (case hexToBytes L pubKey of
        Inl e \<Rightarrow> Inl e
      | Inr bs \<Rightarrow>
          (case keyFromPublic L bs of
             Inl e \<Rightarrow> Inl e
           | Inr k \<Rightarrow>
               (let digest = take 32 (sha512 L message)
                in ecdsa_verify L k digest (toArray_hex L signature))))"

definition api_ed25519_deriveKeypair :: "'pt crypto \<Rightarrow> bytes \<Rightarrow> error + keypair" where
  "api_ed25519_deriveKeypair L entropy =
     (let prefix = ''ED'';
          rawPrivateKey = Sha512_first256 L (Sha512_add Sha512_new entropy);
          privKey = prefix @ bytesToHex rawPrivateKey
      in case eddsa_pubBytes L (KeyFromSecret rawPrivateKey) of
           Inl e \<Rightarrow> Inl e
         | Inr pubBytes \<Rightarrow>
             Inr \<lparr>privateKey = privKey, publicKey = prefix @ bytesToHex pubBytes\<rparr>)"

definition api_ed25519_sign :: "'pt crypto \<Rightarrow> bytes \<Rightarrow> string \<Rightarrow> error + string" where
  "api_ed25519_sign L message privKey =
     (case hexToBytes L privKey of
        Inl e \<Rightarrow> Inl e
      | Inr bs \<Rightarrow>
          (case eddsa_sign L (KeyFromSecret (drop 1 bs)) message of
             Inl e \<Rightarrow> Inl e
           | Inr sg \<Rightarrow> Inr (bytesToHex sg)))"

definition api_ed25519_verify ::
  "'pt crypto \<Rightarrow> string \<Rightarrow> bytes \<Rightarrow> string \<Rightarrow> error + bool" where
  "api_ed25519_verify L signature message pubKey =
     (case hexToBytes L pubKey of
        Inl e \<Rightarrow> Inl e
      | Inr bs \<Rightarrow>
          (let k = EdKeyFromPublic (drop 1 bs)
           in case hexToBytes L signature of
                Inl e \<Rightarrow> Inl e
              | Inr sg \<Rightarrow> eddsa_verify L k message sg))"

definition deriveKeypair :: "'pt crypto \<Rightarrow> string \<Rightarrow> opts \<Rightarrow> error + keypair" where
  "deriveKeypair L seed os =
     (case decodeSeed L seed of
        Inl e \<Rightarrow> Inl e
      | Inr (ty, bs) \<Rightarrow>
          (case ty of
             Secp256k1 \<Rightarrow> api_secp256k1_deriveKeypair L bs os
           | Ed25519 \<Rightarrow> api_ed25519_deriveKeypair L bs))"

definition getAlgorithmFromKey :: "'pt crypto \<Rightarrow> string \<Rightarrow> error + KeyType" where
  "getAlgorithmFromKey L k =
     (case hexToBytes L k of
        Inl e \<Rightarrow> Inl e
      | Inr bs \<Rightarrow>
          Inr (if length bs = 33 \<and> (case bs of [] \<Rightarrow> False | b # _ \<Rightarrow> b = 0xED)
               then Ed25519 else Secp256k1))"

definition api_sign :: "'pt crypto \<Rightarrow> bytes \<Rightarrow> string \<Rightarrow> error + string" where
  "api_sign L message privKey =
     (case getAlgorithmFromKey L privKey of
        Inl e \<Rightarrow> Inl e
      | Inr algorithm \<Rightarrow>
          (case algorithm of
             Secp256k1 \<Rightarrow> api_secp256k1_sign L message privKey
           | Ed25519 \<Rightarrow> api_ed25519_sign L message privKey))"

definition api_verify :: "'pt crypto \<Rightarrow> string \<Rightarrow> bytes \<Rightarrow> string \<Rightarrow> error + bool" where
  "api_verify L signature message pubKey =
     (case getAlgorithmFromKey L pubKey of
        Inl e \<Rightarrow> Inl e
      | Inr algorithm \<Rightarrow>
          (case algorithm of
             Secp256k1 \<Rightarrow> api_secp256k1_verify L signature message pubKey
           | Ed25519 \<Rightarrow> api_ed25519_verify L signature message pubKey))"

section \<open>The class interface (index.js)\<close>

text \<open>
  \<open>pairContructor(type)\<close> picks the class, and \<open>fromPublic\<close> / \<open>fromPrivate\<close> are the
  static methods the extendClass files define. A pair is an object of one of the two
  classes.
\<close>

datatype 'pt pair = PairEd25519 Ed25519Pair | PairK256 "'pt K256Pair"

definition keyPairFromPublic :: "'pt crypto \<Rightarrow> key_input \<Rightarrow> error + 'pt pair" where
  "keyPairFromPublic L pubKey =
     (case parseKey L pubKey of
        Inl e \<Rightarrow> Inl e
      | Inr (ty, bs) \<Rightarrow>
          (case ty of
             Ed25519 \<Rightarrow> Inr (PairEd25519 (Ed25519Pair_fromPublic L (KeyArray bs)))
           | Secp256k1 \<Rightarrow>
               (case K256Pair_ext_fromPublic L (KeyArray bs) of
                  Inl e \<Rightarrow> Inl e
                | Inr p \<Rightarrow> Inr (PairK256 p))))"

definition keyPairFromPrivate :: "'pt crypto \<Rightarrow> key_input \<Rightarrow> error + 'pt pair" where
  "keyPairFromPrivate L privKey =
     (case parseKey L privKey of
        Inl e \<Rightarrow> Inl e
      | Inr (ty, bs) \<Rightarrow>
          (case ty of
             Ed25519 \<Rightarrow> Inr (PairEd25519 (Ed25519Pair_fromPrivate L (KeyArray bs)))
           | Secp256k1 \<Rightarrow> Inr (PairK256 (K256Pair_ext_fromPrivate L (KeyArray bs)))))"

definition index_sign :: "'pt crypto \<Rightarrow> nat \<Rightarrow> bytes \<Rightarrow> key_input \<Rightarrow> error + bytes" where
  "index_sign L depth message privKey =
     (case keyPairFromPrivate L privKey of
        Inl e \<Rightarrow> Inl e
      | Inr (PairEd25519 p) \<Rightarrow> map_sum id fst (Ed25519Pair_sign L depth p message)
      | Inr (PairK256 p) \<Rightarrow> map_sum id fst (K256Pair_ext_sign L depth p message))"

definition index_verify ::
  "'pt crypto \<Rightarrow> nat \<Rightarrow> bytes \<Rightarrow> bytes \<Rightarrow> key_input \<Rightarrow> error + bool" where
  "index_verify L depth signature message pubKey =
     (case keyPairFromPublic L pubKey of
        Inl e \<Rightarrow> Inl e
      | Inr (PairEd25519 p) \<Rightarrow> Ed25519Pair_verify L depth p signature message
      | Inr (PairK256 p) \<Rightarrow> K256Pair_ext_verify L depth p signature message)"

section \<open>A small instance of the libraries\<close>

text \<open>
  To run the definitions on concrete inputs the theorems below are instantiated with a
  small stand-in for the libraries: the hash repeats the last byte of its input 64
  times, a point is the number that multiplies the base point, a signature is the
  digest itself, and hexadecimal text is read digit by digit. As elliptic does, it
  throws on a public key that is no encoded point and on an empty ECDSA signature. The
  order is secp256k1's.
\<close>

definition hex_value :: "char \<Rightarrow> nat" where
  "hex_value c =
     (let k = (of_char c :: nat)
      in if 48 \<le> k \<and> k \<le> 57 then k - 48
         else if 65 \<le> k \<and> k \<le> 70 then k - 55
         else if 97 \<le> k \<and> k \<le> 102 then k - 87
         else 0)"

fun hex_pairs :: "string \<Rightarrow> bytes" where
  "hex_pairs (a # b # rest) = of_nat (hex_value a * 16 + hex_value b) # hex_pairs rest"
| "hex_pairs rest = []"

definition demo :: "nat crypto" where
  "demo = \<lparr>
     sha512 = (\<lambda>m. replicate 64 (last m)),
     curve_n = 0xFFFFFFFFFFFFFFFFFFFFFFFFFFFFFFFEBAAEDCE6AF48A03BBFD25E8CD0364141,
     g_mul = (\<lambda>k. k),
     encodeCompressed = (\<lambda>p. [2, of_nat p]),
     decodePoint = (\<lambda>bs. case bs of [t, b] \<Rightarrow> Inr (unat b) | _ \<Rightarrow> Inl (LibraryError ''Unknown point format'')),
     ecdsa_sign = (\<lambda>k digest. case k of KeyFromPrivate d \<Rightarrow> Inr digest
                                 | KeyFromPublic p \<Rightarrow> Inl (LibraryError ''Missing private key'')),
     ecdsa_verify = (\<lambda>k digest signature.
        if signature = [] then Inl (LibraryError ''Signature without r or s'')
        else Inr (signature = digest)),
     eddsa_pubBytes = (\<lambda>k. case k of KeyFromSecret s \<Rightarrow> Inr (rev s) | EdKeyFromPublic p \<Rightarrow> Inr p),
     eddsa_sign = (\<lambda>k m. case k of KeyFromSecret s \<Rightarrow> Inr (s @ m)
                             | EdKeyFromPublic p \<Rightarrow> Inl (LibraryError ''KeyPair is public only'')),
     eddsa_verify = (\<lambda>k m s. case k of KeyFromSecret x \<Rightarrow> Inr (s = x @ m)
                             | EdKeyFromPublic p \<Rightarrow> Inr (s = rev p @ m)),
     bn_hex = (\<lambda>s. foldl (\<lambda>acc c. acc * 16 + hex_value c) 0 s),
     toArray_hex = (\<lambda>s. hex_pairs (if odd (length s) then CHR ''0'' # s else s)),
     decodeNodePublic = (\<lambda>s. Inl (LibraryError ''checksum_invalid'')),
     decodeSeed = (\<lambda>s. Inl (LibraryError ''checksum_invalid'')) \<rparr>"

definition demo_seed :: bytes where
  "demo_seed = [1, 2, 3, 4, 5, 6, 7, 8, 9, 10, 11, 12, 13, 14, 15, 16]"

definition demo_scalar :: nat where
  "demo_scalar = 0x0101010101010101010101010101010101010101010101010101010101010101"

definition demo_account_scalar :: nat where
  "demo_account_scalar = 0x0202020202020202020202020202020202020202020202020202020202020202"

definition demo_ed_key_text :: string where
  "demo_ed_key_text = ''ED0000000000000000000000000000000000000000000000000000000000000001''"

definition demo_ed_key_bytes :: bytes where
  "demo_ed_key_bytes =
     [0xED, 0, 0, 0, 0, 0, 0, 0, 0, 0, 0, 0, 0, 0, 0, 0, 0,
      0, 0, 0, 0, 0, 0, 0, 0, 0, 0, 0, 0, 0, 0, 0, 1]"

section \<open>Scalar derivation: the loop and the candidates\<close>

lemma deriveScalar_loop_step:
  "deriveScalar_loop L bs discrim i =
     (if i \<le> 0xFFFFFFFF then
        (if accepted L (candidate L bs discrim i) then Inr (candidate L bs discrim i)
         else deriveScalar_loop L bs discrim (i + 1))
      else Inl (Error ''impossible unicorn ;)''))"
  by (subst deriveScalar_loop.simps)
     (simp add: candidate_def accepted_def Sha512_add_def Sha512_new_def Sha512_addU32_def
       Sha512_first256BN_def Sha512_first256_def Sha512_finish_def Let_def split: option.split)

lemma deriveScalar_loop_range:
  "deriveScalar_loop L bs discrim i = Inr k \<Longrightarrow> accepted L k"
proof (induction i rule: measure_induct_rule [where f = "\<lambda>i. 4294967296 - i"])
  case (less i)
  show ?case
  proof (cases "i \<le> 0xFFFFFFFF")
    case False
    with less.prems show ?thesis
      by (simp add: deriveScalar_loop_step [of L bs discrim i])
  next
    case inb: True
    show ?thesis
    proof (cases "accepted L (candidate L bs discrim i)")
      case True
      with inb less.prems show ?thesis
        by (simp add: deriveScalar_loop_step [of L bs discrim i])
    next
      case False
      with inb less.prems have "deriveScalar_loop L bs discrim (i + 1) = Inr k"
        by (simp add: deriveScalar_loop_step [of L bs discrim i])
      moreover from inb have "4294967296 - (i + 1) < 4294967296 - i"
        by simp
      ultimately show ?thesis
        using less.IH by blast
    qed
  qed
qed

lemma deriveScalar_loop_Inr_iff:
  "deriveScalar_loop L bs discrim i = Inr k \<longleftrightarrow>
     (\<exists>j. i \<le> j \<and> j \<le> 0xFFFFFFFF \<and> candidate L bs discrim j = k \<and> accepted L k \<and>
          (\<forall>m. i \<le> m \<and> m < j \<longrightarrow> \<not> accepted L (candidate L bs discrim m)))"
proof (induction i rule: measure_induct_rule [where f = "\<lambda>i. 4294967296 - i"])
  case (less i)
  show ?case
  proof (cases "i \<le> 0xFFFFFFFF")
    case False
    then show ?thesis
      by (simp add: deriveScalar_loop_step [of L bs discrim i])
  next
    case inb: True
    show ?thesis
    proof (cases "accepted L (candidate L bs discrim i)")
      case acc: True
      have "(\<exists>j. i \<le> j \<and> j \<le> 0xFFFFFFFF \<and> candidate L bs discrim j = k \<and> accepted L k \<and>
               (\<forall>m. i \<le> m \<and> m < j \<longrightarrow> \<not> accepted L (candidate L bs discrim m)))
            \<longleftrightarrow> candidate L bs discrim i = k"
      proof
        assume "\<exists>j. i \<le> j \<and> j \<le> 0xFFFFFFFF \<and> candidate L bs discrim j = k \<and> accepted L k \<and>
               (\<forall>m. i \<le> m \<and> m < j \<longrightarrow> \<not> accepted L (candidate L bs discrim m))"
        then obtain j where j: "i \<le> j" "candidate L bs discrim j = k"
          "\<forall>m. i \<le> m \<and> m < j \<longrightarrow> \<not> accepted L (candidate L bs discrim m)"
          by blast
        from j(3) acc have "\<not> i < j"
          by blast
        with j(1) have "j = i"
          by simp
        with j(2) show "candidate L bs discrim i = k"
          by simp
      next
        assume "candidate L bs discrim i = k"
        with acc inb show "\<exists>j. i \<le> j \<and> j \<le> 0xFFFFFFFF \<and> candidate L bs discrim j = k \<and>
               accepted L k \<and> (\<forall>m. i \<le> m \<and> m < j \<longrightarrow> \<not> accepted L (candidate L bs discrim m))"
          by (intro exI [of _ i]) auto
      qed
      with acc inb show ?thesis
        by (simp add: deriveScalar_loop_step [of L bs discrim i])
    next
      case rej: False
      from inb have "4294967296 - (i + 1) < 4294967296 - i"
        by simp
      from less.IH [OF this]
      have IH: "deriveScalar_loop L bs discrim (i + 1) = Inr k \<longleftrightarrow>
          (\<exists>j. i + 1 \<le> j \<and> j \<le> 0xFFFFFFFF \<and> candidate L bs discrim j = k \<and> accepted L k \<and>
               (\<forall>m. i + 1 \<le> m \<and> m < j \<longrightarrow> \<not> accepted L (candidate L bs discrim m)))" .
      have "(\<exists>j. i + 1 \<le> j \<and> j \<le> 0xFFFFFFFF \<and> candidate L bs discrim j = k \<and> accepted L k \<and>
               (\<forall>m. i + 1 \<le> m \<and> m < j \<longrightarrow> \<not> accepted L (candidate L bs discrim m)))
         \<longleftrightarrow> (\<exists>j. i \<le> j \<and> j \<le> 0xFFFFFFFF \<and> candidate L bs discrim j = k \<and> accepted L k \<and>
               (\<forall>m. i \<le> m \<and> m < j \<longrightarrow> \<not> accepted L (candidate L bs discrim m)))"
        (is "?A \<longleftrightarrow> ?B")
      proof
        assume ?A
        then obtain j where j: "i + 1 \<le> j" "j \<le> 0xFFFFFFFF" "candidate L bs discrim j = k"
          "accepted L k" "\<forall>m. i + 1 \<le> m \<and> m < j \<longrightarrow> \<not> accepted L (candidate L bs discrim m)"
          by blast
        have "\<forall>m. i \<le> m \<and> m < j \<longrightarrow> \<not> accepted L (candidate L bs discrim m)"
        proof (intro allI impI)
          fix m assume m: "i \<le> m \<and> m < j"
          show "\<not> accepted L (candidate L bs discrim m)"
          proof (cases "m = i")
            case True
            with rej show ?thesis by simp
          next
            case False
            with m have "i + 1 \<le> m \<and> m < j" by simp
            with j(5) show ?thesis by blast
          qed
        qed
        with j show ?B
          by (intro exI [of _ j]) simp
      next
        assume ?B
        then obtain j where j: "i \<le> j" "j \<le> 0xFFFFFFFF" "candidate L bs discrim j = k"
          "accepted L k" "\<forall>m. i \<le> m \<and> m < j \<longrightarrow> \<not> accepted L (candidate L bs discrim m)"
          by blast
        from j(3,4) rej have "j \<noteq> i"
          by auto
        with j(1) have "i + 1 \<le> j"
          by simp
        moreover from j(5) have "\<forall>m. i + 1 \<le> m \<and> m < j \<longrightarrow> \<not> accepted L (candidate L bs discrim m)"
          by simp
        ultimately show ?A
          using j(2,3,4) by (intro exI [of _ j]) simp
      qed
      with IH rej inb show ?thesis
        by (simp add: deriveScalar_loop_step [of L bs discrim i])
    qed
  qed
qed

lemma deriveScalar_loop_Inl_iff:
  "deriveScalar_loop L bs discrim i = Inl e \<longleftrightarrow>
     (e = Error ''impossible unicorn ;)'' \<and>
      (\<forall>j. i \<le> j \<and> j \<le> 0xFFFFFFFF \<longrightarrow> \<not> accepted L (candidate L bs discrim j)))"
proof (induction i rule: measure_induct_rule [where f = "\<lambda>i. 4294967296 - i"])
  case (less i)
  show ?case
  proof (cases "i \<le> 0xFFFFFFFF")
    case False
    then show ?thesis
      by (auto simp: deriveScalar_loop_step [of L bs discrim i])
  next
    case inb: True
    show ?thesis
    proof (cases "accepted L (candidate L bs discrim i)")
      case True
      with inb show ?thesis
        by (auto simp: deriveScalar_loop_step [of L bs discrim i])
    next
      case rej: False
      from inb have "4294967296 - (i + 1) < 4294967296 - i"
        by simp
      from less.IH [OF this]
      have IH: "deriveScalar_loop L bs discrim (i + 1) = Inl e \<longleftrightarrow>
          (e = Error ''impossible unicorn ;)'' \<and>
           (\<forall>j. i + 1 \<le> j \<and> j \<le> 0xFFFFFFFF \<longrightarrow> \<not> accepted L (candidate L bs discrim j)))" .
      have "(\<forall>j. i + 1 \<le> j \<and> j \<le> 0xFFFFFFFF \<longrightarrow> \<not> accepted L (candidate L bs discrim j))
        \<longleftrightarrow> (\<forall>j. i \<le> j \<and> j \<le> 0xFFFFFFFF \<longrightarrow> \<not> accepted L (candidate L bs discrim j))"
      proof (intro iffI allI impI)
        fix j assume a: "\<forall>j. i + 1 \<le> j \<and> j \<le> 0xFFFFFFFF \<longrightarrow> \<not> accepted L (candidate L bs discrim j)"
          and j: "i \<le> j \<and> j \<le> 0xFFFFFFFF"
        show "\<not> accepted L (candidate L bs discrim j)"
        proof (cases "j = i")
          case True
          with rej show ?thesis by simp
        next
          case False
          with j have "i + 1 \<le> j \<and> j \<le> 0xFFFFFFFF" by simp
          with a show ?thesis by blast
        qed
      next
        fix j assume a: "\<forall>j. i \<le> j \<and> j \<le> 0xFFFFFFFF \<longrightarrow> \<not> accepted L (candidate L bs discrim j)"
          and j: "i + 1 \<le> j \<and> j \<le> 0xFFFFFFFF"
        from j have "i \<le> j \<and> j \<le> 0xFFFFFFFF" by simp
        with a show "\<not> accepted L (candidate L bs discrim j)" by blast
      qed
      with IH rej inb show ?thesis
        by (simp add: deriveScalar_loop_step [of L bs discrim i])
    qed
  qed
qed

text \<open>
  C5. Every scalar \<open>deriveScalar\<close> returns, for every byte sequence and every
  discriminator (present or absent), lies strictly between 0 and the curve order: it is
  never 0 and never at or above the order.
\<close>

theorem deriveScalar_in_range:
  "deriveScalar L bs discrim = Inr k \<Longrightarrow> 0 < k \<and> k < curve_n L"
  using deriveScalar_loop_range [of L bs discrim 0 k]
  by (simp add: deriveScalar_def accepted_def)

text \<open>The stand-in hash sees only the last byte of its input, the low byte of the counter.\<close>

lemma replicate_32:
  "replicate 32 x = [x, x, x, x, x, x, x, x, x, x, x, x, x, x, x, x,
                     x, x, x, x, x, x, x, x, x, x, x, x, x, x, x, x]"
  by (simp add: numeral_eq_Suc)

lemma demo_candidate:
  "candidate demo bs discrim i = bn_of_bytes (replicate 32 (ucast (of_nat i :: 32 word)))"
  by (simp add: candidate_def demo_def u32_be_def split: option.split)

lemma demo_candidate_0: "candidate demo bs discrim 0 = 0"
  by (simp add: demo_candidate replicate_32 bn_of_bytes_def)

lemma demo_candidate_1: "candidate demo bs discrim (Suc 0) = demo_scalar"
  by (simp add: demo_candidate replicate_32 bn_of_bytes_def demo_scalar_def)

lemma demo_curve_n:
  "curve_n demo = 0xFFFFFFFFFFFFFFFFFFFFFFFFFFFFFFFEBAAEDCE6AF48A03BBFD25E8CD0364141"
  by (simp add: demo_def)

lemma demo_deriveScalar: "deriveScalar demo bs discrim = Inr demo_scalar"
  by (simp add: deriveScalar_def deriveScalar_loop_step [of demo bs discrim 0]
      deriveScalar_loop_step [of demo bs discrim "Suc 0"] demo_candidate_0 demo_candidate_1
      accepted_def demo_curve_n demo_scalar_def)

theorem deriveScalar_in_range_witness:
  "deriveScalar demo demo_seed (Some 7) = Inr demo_scalar \<and>
   0 < demo_scalar \<and> demo_scalar < curve_n demo"
  using deriveScalar_in_range [OF demo_deriveScalar [of demo_seed "Some 7"]]
  by (simp add: demo_deriveScalar)

text \<open>
  C1. For every byte sequence and optional 32-bit discriminator, \<open>deriveScalar\<close> returns
  the first accepted candidate for the counter ascending from 0, where the candidate of
  counter \<open>i\<close> is the first 32 bytes of the hash of the bytes, the discriminator (if
  present) and \<open>i\<close>, both as big-endian u32, read as a big-endian unsigned integer, and
  a candidate is accepted when it lies strictly between 0 and the curve order. It
  throws exactly when none of the 2^32 counter values gives an accepted candidate, and
  then it throws the error of the statement after the loop.
\<close>

theorem deriveScalar_first_accepted_candidate:
  "(deriveScalar L bs discrim = Inr k \<longleftrightarrow>
      (\<exists>i\<le>0xFFFFFFFF. candidate L bs discrim i = k \<and> 0 < k \<and> k < curve_n L \<and>
         (\<forall>j<i. \<not> (0 < candidate L bs discrim j \<and> candidate L bs discrim j < curve_n L)))) \<and>
   (deriveScalar L bs discrim = Inl e \<longleftrightarrow>
      (e = Error ''impossible unicorn ;)'' \<and>
       (\<forall>i\<le>0xFFFFFFFF. \<not> (0 < candidate L bs discrim i \<and> candidate L bs discrim i < curve_n L))))"
  using deriveScalar_loop_Inr_iff [of L bs discrim 0 k] deriveScalar_loop_Inl_iff [of L bs discrim 0 e]
  by (simp add: deriveScalar_def accepted_def)

theorem deriveScalar_first_accepted_candidate_witness:
  "deriveScalar demo demo_seed None = Inr demo_scalar \<and>
   candidate demo demo_seed None 0 = 0 \<and>
   candidate demo demo_seed None 1 = demo_scalar \<and>
   (\<exists>i\<le>0xFFFFFFFF. candidate demo demo_seed None i = demo_scalar \<and>
      0 < demo_scalar \<and> demo_scalar < curve_n demo \<and>
      (\<forall>j<i. \<not> (0 < candidate demo demo_seed None j \<and>
                 candidate demo demo_seed None j < curve_n demo)))"
  using deriveScalar_first_accepted_candidate [of demo demo_seed None demo_scalar]
  by (simp add: demo_deriveScalar demo_candidate_0 demo_candidate_1)

section \<open>The two-stage derivation of the secp256k1 private scalar\<close>

text \<open>
  C2. For every seed (the 16-byte seeds among them) \<open>deriveSecret\<close> first computes the
  private generator \<open>deriveScalar(seed)\<close> with no discriminator, and fails as that
  does; if the root (validator) flag is set it returns the private generator unchanged;
  otherwise it returns \<open>(deriveScalar(encodeCompressed(basePoint * privateGen),
  accountIndex) + privateGen) mod curveOrder\<close>, the account index being 0 when none is
  given, and fails as that second derivation does.
\<close>

theorem deriveSecret_two_stage:
  "(deriveScalar L seed None = Inl e \<longrightarrow> deriveSecret L seed os = Inl e) \<and>
   (deriveScalar L seed None = Inr privateGen \<and> validator os \<longrightarrow>
      deriveSecret L seed os = Inr privateGen) \<and>
   (deriveScalar L seed None = Inr privateGen \<and> \<not> validator os \<longrightarrow>
      deriveSecret L seed os =
        (case deriveScalar L (encodeCompressed L (g_mul L privateGen))
                (Some (case accountIndex os of None \<Rightarrow> 0 | Some a \<Rightarrow> a)) of
           Inl e' \<Rightarrow> Inl e'
         | Inr offset \<Rightarrow> Inr ((offset + privateGen) mod curve_n L)))"
  by (simp add: deriveSecret_def Let_def)

theorem deriveSecret_two_stage_witness:
  "length demo_seed = 16 \<and>
   deriveScalar demo demo_seed None = Inr demo_scalar \<and>
   deriveSecret demo demo_seed \<lparr>validator = True, accountIndex = None\<rparr> = Inr demo_scalar \<and>
   deriveSecret demo demo_seed \<lparr>validator = False, accountIndex = None\<rparr> =
     Inr 0x0202020202020202020202020202020202020202020202020202020202020202"
  using deriveSecret_two_stage [of demo demo_seed undefined
          "\<lparr>validator = True, accountIndex = None\<rparr>" demo_scalar]
        deriveSecret_two_stage [of demo demo_seed undefined
          "\<lparr>validator = False, accountIndex = None\<rparr>" demo_scalar]
  by (simp add: demo_deriveScalar demo_curve_n demo_scalar_def demo_seed_def)

text \<open>
  C6. For every seed (the 16-byte seeds among them), the private scalar derived with
  the root (validator) flag set is not the private scalar derived with the flag unset,
  whatever the account index, 0 included: the account scalar adds to the root scalar an
  offset that is neither 0 nor the curve order.
\<close>

theorem root_secret_differs_from_account_secret:
  assumes root: "validator r" and account: "\<not> validator a"
    and secret: "deriveSecret L seed r = Inr x"
  shows "deriveSecret L seed a \<noteq> Inr x"
proof
  assume same: "deriveSecret L seed a = Inr x"
  from secret root have gen: "deriveScalar L seed None = Inr x"
    by (simp add: deriveSecret_def Let_def split: sum.splits)
  from same account gen obtain s
    where off: "deriveScalar L (encodeCompressed L (g_mul L x))
                  (Some (case accountIndex a of None \<Rightarrow> 0 | Some i \<Rightarrow> i)) = Inr s"
      and sum: "(s + x) mod curve_n L = x"
    by (auto simp: deriveSecret_def Let_def split: sum.splits)
  from deriveScalar_loop_range [of L seed None 0 x] gen have x: "0 < x" "x < curve_n L"
    by (simp_all add: deriveScalar_def accepted_def)
  from deriveScalar_loop_range [of L _ _ 0 s] off have s: "0 < s" "s < curve_n L"
    by (simp_all add: deriveScalar_def accepted_def)
  show False
  proof (cases "s + x < curve_n L")
    case True
    with sum s show False
      by simp
  next
    case False
    then have "(s + x) mod curve_n L = (s + x - curve_n L) mod curve_n L"
      by (simp add: le_mod_geq)
    also from x s have "\<dots> = s + x - curve_n L"
      by simp
    finally show False
      using sum s x by simp
  qed
qed

theorem root_secret_differs_from_account_secret_witness:
  "length demo_seed = 16 \<and>
   deriveSecret demo demo_seed \<lparr>validator = True, accountIndex = None\<rparr> = Inr demo_scalar \<and>
   deriveSecret demo demo_seed \<lparr>validator = False, accountIndex = Some 0\<rparr> =
     Inr 0x0202020202020202020202020202020202020202020202020202020202020202 \<and>
   deriveSecret demo demo_seed \<lparr>validator = False, accountIndex = Some 0\<rparr> \<noteq> Inr demo_scalar"
proof -
  have r: "deriveSecret demo demo_seed \<lparr>validator = True, accountIndex = None\<rparr> = Inr demo_scalar"
    by (simp add: deriveSecret_def demo_deriveScalar)
  have a: "deriveSecret demo demo_seed \<lparr>validator = False, accountIndex = Some 0\<rparr> =
     Inr 0x0202020202020202020202020202020202020202020202020202020202020202"
    by (simp add: deriveSecret_def demo_deriveScalar demo_curve_n demo_scalar_def)
  from root_secret_differs_from_account_secret
    [of "\<lparr>validator = True, accountIndex = None\<rparr>" "\<lparr>validator = False, accountIndex = Some 0\<rparr>",
     OF _ _ r]
  have "deriveSecret demo demo_seed \<lparr>validator = False, accountIndex = Some 0\<rparr> \<noteq> Inr demo_scalar"
    by simp
  with r a show ?thesis
    by (simp add: demo_seed_def)
qed

section \<open>The class-syntax secp256k1 key pair never finds its seed\<close>

text \<open>
  An object whose \<open>seedBytes\<close> property and both memos are undefined sends \<open>key()\<close> to
  \<open>pubKeyCanonicalBytes()\<close> and back, whatever the other properties hold: no memo is
  written before a call returns, so the object is the same at every level.
\<close>

lemma K256Pair_key_recursion:
  "this_seedBytes this = None \<Longrightarrow> this__key this = None \<Longrightarrow>
   this__pubKeyCanonicalBytes this = None \<Longrightarrow>
   K256Pair_key L depth this = Inl RangeError \<and>
   K256Pair_pubKeyCanonicalBytes L depth this = Inl RangeError"
  by (induction depth) simp_all

lemma K256Pair_fromSeed_fields:
  "this_seedBytes (K256Pair_fromSeed seed os) = None"
  "this__key (K256Pair_fromSeed seed os) = None"
  "this__pubKeyCanonicalBytes (K256Pair_fromSeed seed os) = None"
  "this__seedBytes (K256Pair_fromSeed seed os) = Some seed"
  by (simp_all add: K256Pair_fromSeed_def K256Pair_constructor_def)

text \<open>
  C10 (the code does not do this). For a pair made by \<open>K256Pair.fromSeed\<close>, \<open>key()\<close>
  and \<open>pubKeyCanonicalBytes()\<close> reach no base case: the constructor stored the seed
  under \<open>_seedBytes\<close>, the test in \<open>key()\<close> reads \<open>seedBytes\<close>, and at every bound on the
  nesting of calls both end in the stack's \<open>RangeError\<close>.
\<close>

theorem K256Pair_key_exhausts_stack:
  "K256Pair_key L depth (K256Pair_fromSeed seed os) = Inl RangeError \<and>
   K256Pair_pubKeyCanonicalBytes L depth (K256Pair_fromSeed seed os) = Inl RangeError"
  by (rule K256Pair_key_recursion) (simp_all add: K256Pair_fromSeed_fields)

text \<open>
  C3 (the code does not do this). For a class-syntax pair made from a seed, \<open>sign\<close>
  raises the stack's \<open>RangeError\<close> for every message instead of returning a signature,
  and \<open>verify\<close>, whose \<open>catch\<close> swallows that error, answers false for every signature
  and message.
\<close>

theorem K256Pair_sign_exhausts_stack:
  "K256Pair_sign L depth (K256Pair_fromSeed seed os) message = Inl RangeError \<and>
   K256Pair_verify L depth (K256Pair_fromSeed seed os) signature message = Inr False"
  using K256Pair_key_recursion [of "K256Pair_fromSeed seed os" L depth]
  by (simp add: K256Pair_sign_def K256Pair_createSignature_def K256Pair_verify_def
      K256Pair_fromSeed_fields)

section \<open>Byte and text encodings of numbers\<close>

lemma length_be_bytes: "length (be_bytes len n) = len"
  by (induction len arbitrary: n) simp_all

lemma bn_of_bytes_snoc: "bn_of_bytes (bs @ [b]) = bn_of_bytes bs * 256 + unat b"
  by (simp add: bn_of_bytes_def)

lemma bn_of_bytes_be_bytes: "bn_of_bytes (be_bytes len n) = n mod 256 ^ len"
proof (induction len arbitrary: n)
  case 0
  show ?case by (simp add: bn_of_bytes_def)
next
  case (Suc len)
  have "bn_of_bytes (be_bytes (Suc len) n) = (n div 256) mod 256 ^ len * 256 + n mod 256"
    by (simp add: bn_of_bytes_snoc Suc.IH unat_of_nat)
  also have "\<dots> = n mod 256 ^ Suc len"
    by (simp add: mod_mult2_eq)
  finally show ?case .
qed

lemma bn_byteLength_le: "bn_byteLength n \<le> len \<longleftrightarrow> n < 256 ^ len"
proof (induction len arbitrary: n)
  case 0
  show ?case by (simp add: bn_byteLength.simps [of n])
next
  case (Suc len)
  show ?case
  proof (cases "n = 0")
    case True
    then show ?thesis by (simp add: bn_byteLength.simps [of 0])
  next
    case False
    then have "bn_byteLength n \<le> Suc len \<longleftrightarrow> bn_byteLength (n div 256) \<le> len"
      by (simp add: bn_byteLength.simps [of n])
    also have "\<dots> \<longleftrightarrow> n div 256 < 256 ^ len"
      by (rule Suc.IH)
    also have "\<dots> \<longleftrightarrow> n < 256 ^ Suc len"
      by (simp add: div_less_iff_less_mult mult.commute)
    finally show ?thesis .
  qed
qed







section \<open>Private key encodings\<close>




lemmas Ed25519Pair_fromSeed_unfold =
  Ed25519Pair_fromSeed_def Ed25519Pair_constructor_def Ed25519Pair_privateKeySigningBytes_def
  deriveEdKeyPairPrivate_def hashed_def Sha512_first256_def Sha512_finish_def Sha512_add_def
  Sha512_new_def hasPrivateKey_def Let_def

lemma Ed25519Pair_privateKeySigningBytes_fromSeed:
  "fst (Ed25519Pair_privateKeySigningBytes L (Ed25519Pair_fromSeed seed)) = take 32 (sha512 L seed)"
  by (simp add: Ed25519Pair_fromSeed_unfold)


lemma Ed25519Pair_key_fromSeed:
  "\<exists>this'. Ed25519Pair_key L (Suc depth) (Ed25519Pair_fromSeed seed) =
     Inr (KeyFromSecret (take 32 (sha512 L seed)), this') \<and> this__publicBytes this' = None"
  by (simp add: Ed25519Pair_fromSeed_unfold)

lemma Ed25519Pair_publicBytes_fromSeed:
  assumes "eddsa_pubBytes L (KeyFromSecret (take 32 (sha512 L seed))) = Inr pb"
  shows "map_sum id fst (Ed25519Pair_publicBytes L (Suc (Suc depth)) (Ed25519Pair_fromSeed seed)) =
     Inr (0xED # pb)"
proof -
  obtain this' where k: "Ed25519Pair_key L (Suc depth) (Ed25519Pair_fromSeed seed) =
     Inr (KeyFromSecret (take 32 (sha512 L seed)), this')"
    using Ed25519Pair_key_fromSeed [of L depth seed] by blast
  have "this__publicBytes (Ed25519Pair_fromSeed seed) = None"
    by (simp add: Ed25519Pair_fromSeed_def Ed25519Pair_constructor_def)
  with k assms show ?thesis
    by (simp add: Let_def)
qed

lemma demo_deriveSecret_root:
  "deriveSecret demo seed \<lparr>validator = True, accountIndex = ai\<rparr> = Inr demo_scalar"
  by (simp add: deriveSecret_def demo_deriveScalar)

lemma demo_deriveSecret_account:
  "deriveSecret demo seed \<lparr>validator = False, accountIndex = ai\<rparr> = Inr demo_account_scalar"
  by (simp add: deriveSecret_def demo_deriveScalar demo_curve_n demo_scalar_def demo_account_scalar_def)

lemma be_bytes_numeral:
  "be_bytes (numeral k) n = be_bytes (pred_numeral k) (n div 256) @ [of_nat n]"
  using be_bytes.simps(2) [of "pred_numeral k" n]
  by (simp only: numeral_eq_Suc [symmetric])



lemma demo_sha512_seed: "take 32 (sha512 demo demo_seed) = replicate 32 16"
  by (simp add: demo_def demo_seed_def)

lemma demo_eddsa_pubBytes:
  "eddsa_pubBytes demo (KeyFromSecret (take 32 (sha512 demo demo_seed))) = Inr (replicate 32 16)"
  by (simp add: demo_sha512_seed) (simp add: demo_def)

lemma demo_bytesToHex:
  "bytesToHex (replicate 32 16) =
     ''1010101010101010101010101010101010101010101010101010101010101010''"
  by (simp add: replicate_32 bytesToHex_def toString_16.simps hex_digit_def toUpperCase_def)




section \<open>The ed25519 derivation\<close>

text \<open>
  C7. For every seed (the 16-byte seeds among them) the ed25519 derivation has one
  stage: the private signing secret is the first 32 bytes of the 512-bit hash of the
  seed bytes, both in \<open>deriveEdKeyPairPrivate\<close> and in the pair's memoised
  \<open>_privateKeySigningBytes()\<close>; the pair's key is elliptic's key of that secret; and
  the public-key encoding is the byte \<open>0xED\<close> followed by that key's public bytes,
  which api.js's ed25519 \<open>deriveKeypair\<close> gives as hexadecimal text after \<open>ED\<close>.
  The secret has 32 bytes when the hash has 64.
\<close>

theorem ed25519_single_stage:
  "deriveEdKeyPairPrivate L seed = take 32 (sha512 L seed) \<and>
   fst (Ed25519Pair_privateKeySigningBytes L (Ed25519Pair_fromSeed seed)) = take 32 (sha512 L seed) \<and>
   (\<exists>this'. Ed25519Pair_key L (Suc depth) (Ed25519Pair_fromSeed seed) =
      Inr (KeyFromSecret (take 32 (sha512 L seed)), this')) \<and>
   (eddsa_pubBytes L (KeyFromSecret (take 32 (sha512 L seed))) = Inr pb \<longrightarrow>
      map_sum id fst (Ed25519Pair_publicBytes L (Suc (Suc depth)) (Ed25519Pair_fromSeed seed)) =
        Inr (0xED # pb) \<and>
      api_ed25519_deriveKeypair L seed =
        Inr \<lparr>privateKey = ''ED'' @ bytesToHex (take 32 (sha512 L seed)),
             publicKey = ''ED'' @ bytesToHex pb\<rparr>) \<and>
   (length (sha512 L seed) = 64 \<longrightarrow> length (take 32 (sha512 L seed)) = 32)"
proof (intro conjI impI)
  show "deriveEdKeyPairPrivate L seed = take 32 (sha512 L seed)"
    by (simp add: deriveEdKeyPairPrivate_def Sha512_first256_def Sha512_finish_def
        Sha512_add_def Sha512_new_def)
  show "fst (Ed25519Pair_privateKeySigningBytes L (Ed25519Pair_fromSeed seed)) =
      take 32 (sha512 L seed)"
    by (rule Ed25519Pair_privateKeySigningBytes_fromSeed)
  show "\<exists>this'. Ed25519Pair_key L (Suc depth) (Ed25519Pair_fromSeed seed) =
      Inr (KeyFromSecret (take 32 (sha512 L seed)), this')"
    using Ed25519Pair_key_fromSeed [of L depth seed] by blast
next
  assume pb: "eddsa_pubBytes L (KeyFromSecret (take 32 (sha512 L seed))) = Inr pb"
  then show "map_sum id fst (Ed25519Pair_publicBytes L (Suc (Suc depth)) (Ed25519Pair_fromSeed seed)) =
        Inr (0xED # pb)"
    by (rule Ed25519Pair_publicBytes_fromSeed)
  from pb show "api_ed25519_deriveKeypair L seed =
        Inr \<lparr>privateKey = ''ED'' @ bytesToHex (take 32 (sha512 L seed)),
             publicKey = ''ED'' @ bytesToHex pb\<rparr>"
    by (simp add: api_ed25519_deriveKeypair_def Let_def Sha512_first256_def Sha512_finish_def
        Sha512_add_def Sha512_new_def)
next
  assume "length (sha512 L seed) = 64"
  then show "length (take 32 (sha512 L seed)) = 32"
    by simp
qed

theorem ed25519_single_stage_witness:
  "length demo_seed = 16 \<and> length (sha512 demo demo_seed) = 64 \<and>
   deriveEdKeyPairPrivate demo demo_seed = replicate 32 16 \<and>
   map_sum id fst (Ed25519Pair_publicBytes demo (Suc (Suc 0)) (Ed25519Pair_fromSeed demo_seed)) =
     Inr (0xED # replicate 32 16) \<and>
   api_ed25519_deriveKeypair demo demo_seed =
     Inr \<lparr>privateKey = ''ED1010101010101010101010101010101010101010101010101010101010101010'',
          publicKey = ''ED1010101010101010101010101010101010101010101010101010101010101010''\<rparr>"
proof -
  have l: "length (sha512 demo demo_seed) = 64"
    by (simp add: demo_def)
  have n: "length demo_seed = 16"
    by (simp add: demo_seed_def)
  from ed25519_single_stage [of demo demo_seed 0 "replicate 32 16"] l n
  show ?thesis
    by (simp add: demo_sha512_seed demo_eddsa_pubBytes [simplified demo_sha512_seed]
        demo_bytesToHex)
qed

section \<open>The algorithm of a key\<close>

lemma demo_bn_hex_ed:
  "bn_hex demo demo_ed_key_text = 0xED0000000000000000000000000000000000000000000000000000000000000001"
  by (simp add: demo_def demo_ed_key_text_def hex_value_def)

lemma demo_hexToBytes_ed: "hexToBytes demo demo_ed_key_text = Inr demo_ed_key_bytes"
proof -
  have len: "length demo_ed_key_text = 66"
    by (simp add: demo_ed_key_text_def)
  have "(0xED0000000000000000000000000000000000000000000000000000000000000001 :: nat) < 256 ^ 33"
    by simp
  then have fits: "bn_byteLength 0xED0000000000000000000000000000000000000000000000000000000000000001 \<le> 33"
    by (simp only: bn_byteLength_le)
  have bytes: "be_bytes 33 0xED0000000000000000000000000000000000000000000000000000000000000001 =
      demo_ed_key_bytes"
    by (simp add: be_bytes_numeral demo_ed_key_bytes_def)
  from len fits bytes show ?thesis
    by (simp add: hexToBytes_def demo_bn_hex_ed bn_toArray_def)
qed

lemma demo_hexToBytes_02: "hexToBytes demo ''02'' = Inr [2]"
proof -
  have "bn_byteLength 2 = 1"
    by (simp add: bn_byteLength.simps [of 2] bn_byteLength.simps [of 0])
  then show ?thesis
    by (simp add: hexToBytes_def bn_toArray_def demo_def hex_value_def)
qed

text \<open>
  C9. The algorithm of a key given to the top-level \<open>sign\<close> and \<open>verify\<close> is inferred
  from the decoded key bytes alone: ed25519 when they are exactly 33 bytes with leading
  byte \<open>0xED\<close>, secp256k1 in every other case. This holds for \<open>getAlgorithmFromKey\<close>
  of api.js (the bytes \<open>hexToBytes\<close> decodes) and for \<open>parseKey\<close> of utils.js (the
  bytes \<open>parsePublicKey\<close> decodes), and \<open>sign\<close> and \<open>verify\<close> of api.js and of
  index.js run the functions or the class of the algorithm so inferred.
\<close>

theorem algorithm_inferred_from_key_bytes:
  "(hexToBytes L k = Inr bs \<longrightarrow>
      getAlgorithmFromKey L k =
        Inr (if length bs = 33 \<and> hd bs = 0xED then Ed25519 else Secp256k1)) \<and>
   (parsePublicKey L ki = Inr bs' \<longrightarrow>
      parseKey L ki =
        Inr (if length bs' = 33 \<and> hd bs' = 0xED then Ed25519 else Secp256k1, bs')) \<and>
   (getAlgorithmFromKey L k = Inr Ed25519 \<longrightarrow>
      api_sign L m k = api_ed25519_sign L m k \<and>
      api_verify L sg m k = api_ed25519_verify L sg m k) \<and>
   (getAlgorithmFromKey L k = Inr Secp256k1 \<longrightarrow>
      api_sign L m k = api_secp256k1_sign L m k \<and>
      api_verify L sg m k = api_secp256k1_verify L sg m k) \<and>
   (parseKey L ki = Inr (Ed25519, bs') \<longrightarrow>
      index_sign L depth m ki =
        map_sum id fst (Ed25519Pair_sign L depth (Ed25519Pair_fromPrivate L (KeyArray bs')) m) \<and>
      index_verify L depth sgb m ki =
        Ed25519Pair_verify L depth (Ed25519Pair_fromPublic L (KeyArray bs')) sgb m) \<and>
   (parseKey L ki = Inr (Secp256k1, bs') \<longrightarrow>
      index_sign L depth m ki =
        map_sum id fst (K256Pair_ext_sign L depth (K256Pair_ext_fromPrivate L (KeyArray bs')) m) \<and>
      index_verify L depth sgb m ki =
        K256Pair_ext_verify L depth (K256Pair_constructor None (Some bs') None False) sgb m)"
proof (intro conjI impI)
  assume "hexToBytes L k = Inr bs"
  then show "getAlgorithmFromKey L k =
        Inr (if length bs = 33 \<and> hd bs = 0xED then Ed25519 else Secp256k1)"
    by (cases bs) (simp_all add: getAlgorithmFromKey_def)
next
  assume "parsePublicKey L ki = Inr bs'"
  then show "parseKey L ki =
        Inr (if length bs' = 33 \<and> hd bs' = 0xED then Ed25519 else Secp256k1, bs')"
    by (cases bs') (simp_all add: parseKey_def)
next
  assume a: "getAlgorithmFromKey L k = Inr Ed25519"
  then show "api_sign L m k = api_ed25519_sign L m k"
    by (simp add: api_sign_def)
  from a show "api_verify L sg m k = api_ed25519_verify L sg m k"
    by (simp add: api_verify_def)
next
  assume a: "getAlgorithmFromKey L k = Inr Secp256k1"
  then show "api_sign L m k = api_secp256k1_sign L m k"
    by (simp add: api_sign_def)
  from a show "api_verify L sg m k = api_secp256k1_verify L sg m k"
    by (simp add: api_verify_def)
next
  assume p: "parseKey L ki = Inr (Ed25519, bs')"
  then show "index_sign L depth m ki =
        map_sum id fst (Ed25519Pair_sign L depth (Ed25519Pair_fromPrivate L (KeyArray bs')) m)"
    by (simp add: index_sign_def keyPairFromPrivate_def)
  from p show "index_verify L depth sgb m ki =
        Ed25519Pair_verify L depth (Ed25519Pair_fromPublic L (KeyArray bs')) sgb m"
    by (simp add: index_verify_def keyPairFromPublic_def)
next
  assume p: "parseKey L ki = Inr (Secp256k1, bs')"
  then show "index_sign L depth m ki =
        map_sum id fst (K256Pair_ext_sign L depth (K256Pair_ext_fromPrivate L (KeyArray bs')) m)"
    by (simp add: index_sign_def keyPairFromPrivate_def)
  from p show "index_verify L depth sgb m ki =
        K256Pair_ext_verify L depth (K256Pair_constructor None (Some bs') None False) sgb m"
    by (simp add: index_verify_def keyPairFromPublic_def K256Pair_ext_fromPublic_def
        parsePublicKey_def parseBytes_def)
qed

lemma demo_ed_key_bytes_shape: "length demo_ed_key_bytes = 33" "hd demo_ed_key_bytes = 0xED"
  by (simp_all add: demo_ed_key_bytes_def)

theorem algorithm_inferred_from_key_bytes_witness:
  "getAlgorithmFromKey demo demo_ed_key_text = Inr Ed25519 \<and>
   getAlgorithmFromKey demo ''02'' = Inr Secp256k1 \<and>
   parseKey demo (KeyArray demo_ed_key_bytes) = Inr (Ed25519, demo_ed_key_bytes) \<and>
   parseKey demo (KeyArray [2]) = Inr (Secp256k1, [2]) \<and>
   api_sign demo [1] demo_ed_key_text = api_ed25519_sign demo [1] demo_ed_key_text \<and>
   api_verify demo ''00'' [1] demo_ed_key_text = api_ed25519_verify demo ''00'' [1] demo_ed_key_text \<and>
   api_sign demo [1] ''02'' = api_secp256k1_sign demo [1] ''02'' \<and>
   api_verify demo ''00'' [1] ''02'' = api_secp256k1_verify demo ''00'' [1] ''02'' \<and>
   index_verify demo 1 [3] [1] (KeyArray demo_ed_key_bytes) =
     Ed25519Pair_verify demo 1 (Ed25519Pair_fromPublic demo (KeyArray demo_ed_key_bytes)) [3] [1] \<and>
   index_verify demo 1 [3] [1] (KeyArray [2]) =
     K256Pair_ext_verify demo 1 (K256Pair_constructor None (Some [2]) None False) [3] [1]"
proof -
  have pe: "parsePublicKey demo (KeyArray demo_ed_key_bytes) = Inr demo_ed_key_bytes"
    by (simp add: parsePublicKey_def parseBytes_def)
  have ps: "parsePublicKey demo (KeyArray [2]) = Inr [2]"
    by (simp add: parsePublicKey_def parseBytes_def)
  note e = algorithm_inferred_from_key_bytes [where L = demo and k = demo_ed_key_text
      and bs = demo_ed_key_bytes and ki = "KeyArray demo_ed_key_bytes"
      and bs' = demo_ed_key_bytes and m = "[1]" and sg = "''00''" and sgb = "[3]" and depth = 1]
  note s = algorithm_inferred_from_key_bytes [where L = demo and k = "''02''"
      and bs = "[2]" and ki = "KeyArray [2]"
      and bs' = "[2]" and m = "[1]" and sg = "''00''" and sgb = "[3]" and depth = 1]
  from e have e1: "getAlgorithmFromKey demo demo_ed_key_text = Inr Ed25519"
    and e2: "parseKey demo (KeyArray demo_ed_key_bytes) = Inr (Ed25519, demo_ed_key_bytes)"
    by (simp_all add: demo_hexToBytes_ed pe demo_ed_key_bytes_shape)
  from s have s1: "getAlgorithmFromKey demo ''02'' = Inr Secp256k1"
    and s2: "parseKey demo (KeyArray [2]) = Inr (Secp256k1, [2])"
    by (simp_all add: demo_hexToBytes_02 ps)
  from e e1 e2 s s1 s2 show ?thesis
    by simp
qed

section \<open>The extendClass secp256k1 pair and the ed25519 pair sign and verify\<close>

text \<open>
  The sibling of the class-syntax file finds the seed: \<open>key()\<close> returns after one call.
  When elliptic verifies what it signed, a pair made from a seed verifies its own
  signature, for both classes.
\<close>

lemma K256Pair_ext_key_fromSeed:
  "K256Pair_ext_key L (Suc depth) (K256Pair_ext_fromSeed seed os) =
     (case deriveSecret L seed \<lparr>validator = validator os, accountIndex = None\<rparr> of
        Inl e \<Rightarrow> Inl e
      | Inr n \<Rightarrow> Inr (KeyFromPrivate n,
                     (K256Pair_ext_fromSeed seed os)\<lparr>this__key := Some (KeyFromPrivate n)\<rparr>))"
  by (simp add: K256Pair_ext_fromSeed_def K256Pair_constructor_def hasPrivateKey_def
      K256Pair_ext_private_def derivePrivate_def hashed_def keyFromPrivate_def split: sum.splits)

lemma K256Pair_ext_key_memo:
  "this__key this = Some k \<Longrightarrow> K256Pair_ext_key L (Suc depth) this = Inr (k, this)"
  by simp

lemma K256Pair_ext_sign_then_verify:
  assumes lib: "\<And>d h s. ecdsa_sign L (KeyFromPrivate d) h = Inr s \<Longrightarrow>
                  ecdsa_verify L (KeyFromPrivate d) h s = Inr True"
    and sg: "K256Pair_ext_sign L (Suc depth) (K256Pair_ext_fromSeed seed os) message = Inr (s, this')"
  shows "K256Pair_ext_verify L (Suc depth') this' s message = Inr True"
proof -
  from sg obtain n where n: "deriveSecret L seed \<lparr>validator = validator os, accountIndex = None\<rparr> = Inr n"
    by (auto simp: K256Pair_ext_sign_def K256Pair_ext_key_fromSeed simp del: K256Pair_ext_key.simps split: sum.splits)
  from sg n have this': "this' = (K256Pair_ext_fromSeed seed os)\<lparr>this__key := Some (KeyFromPrivate n)\<rparr>"
    and signed: "ecdsa_sign L (KeyFromPrivate n) (K256Pair_ext_hashMessage L message) = Inr s"
    by (auto simp: K256Pair_ext_sign_def K256Pair_ext_key_fromSeed simp del: K256Pair_ext_key.simps split: sum.splits)
  from this' have "K256Pair_ext_key L (Suc depth') this' = Inr (KeyFromPrivate n, this')"
    by (simp add: K256Pair_ext_key_memo del: K256Pair_ext_key.simps)
  with lib [OF signed] show ?thesis
    by (simp add: K256Pair_ext_verify_def)
qed

lemma Ed25519Pair_sign_then_verify:
  assumes lib: "\<And>x m s. eddsa_sign L (KeyFromSecret x) m = Inr s \<Longrightarrow>
                  eddsa_verify L (KeyFromSecret x) m s = Inr True"
    and sg: "Ed25519Pair_sign L (Suc depth) (Ed25519Pair_fromSeed seed) message = Inr (s, this')"
  shows "Ed25519Pair_verify L (Suc depth') this' s message = Inr True"
proof -
  have k: "Ed25519Pair_key L (Suc depth) (Ed25519Pair_fromSeed seed) =
      Inr (KeyFromSecret (take 32 (sha512 L seed)),
           (Ed25519Pair_fromSeed seed)\<lparr>this___privateKeySigningBytes := Some (take 32 (sha512 L seed)),
              this__key := Some (KeyFromSecret (take 32 (sha512 L seed)))\<rparr>)"
    by (simp add: Ed25519Pair_fromSeed_unfold)
  from sg k have this': "this__key this' = Some (KeyFromSecret (take 32 (sha512 L seed)))"
    and signed: "eddsa_sign L (KeyFromSecret (take 32 (sha512 L seed))) message = Inr s"
    by (auto simp: Ed25519Pair_sign_def split: sum.splits)
  from this' have "Ed25519Pair_key L (Suc depth') this' =
      Inr (KeyFromSecret (take 32 (sha512 L seed)), this')"
    by simp
  with lib [OF signed] show ?thesis
    by (simp add: Ed25519Pair_verify_def)
qed

section \<open>What verify does with errors\<close>

text \<open>
  C4 as stated fails: api.js's \<open>verify\<close> raises the assertion error of \<open>hexToBytes\<close>
  for a public key of odd length, whatever the libraries do.
\<close>

theorem api_verify_counterexample:
  "api_verify demo ''00'' [1] ''ED0'' = Inl AssertionError"
  by (simp add: api_verify_def getAlgorithmFromKey_def hexToBytes_def)

lemma K256Pair_verify_boolean: "\<exists>b. K256Pair_verify L depth this message signature = Inr b"
  by (auto simp: K256Pair_verify_def split: sum.splits prod.splits)

lemma K256Pair_ext_verify_boolean:
  "\<exists>b. K256Pair_ext_verify L depth this signature message = Inr b"
  by (auto simp: K256Pair_ext_verify_def split: sum.splits prod.splits)

text \<open>
  C4, amended. \<open>K256Pair.verify\<close>, in the class file and in the extendClass file,
  returns a boolean for every signature, message and pair: when \<open>key()\<close> throws, or
  elliptic's \<open>verify\<close> throws while decoding the signature or on the curve, the error is
  caught and the answer is false, and otherwise the answer is the boolean elliptic
  computes. \<open>Ed25519Pair.verify\<close> returns the boolean elliptic computes when nothing is
  thrown; nothing is said here of what it does when something is. api.js's \<open>verify\<close>
  has no \<open>catch\<close>: it throws the assertion error of \<open>hexToBytes\<close> for a public key of
  odd length, and for an ed25519 key with a signature of odd length.
\<close>

theorem K256Pair_verify_false_on_error:
  "(K256Pair_key L depth this = Inl e \<longrightarrow>
      K256Pair_verify L depth this message signature = Inr False) \<and>
   (K256Pair_key L depth this = Inr (k, this') \<longrightarrow>
      K256Pair_verify L depth this message signature =
        Inr (case ecdsa_verify L k (K256Pair_hashMessage L message) signature of
               Inl e' \<Rightarrow> False | Inr b \<Rightarrow> b)) \<and>
   (K256Pair_ext_key L depth that = Inl e2 \<longrightarrow>
      K256Pair_ext_verify L depth that signature message = Inr False) \<and>
   (K256Pair_ext_key L depth that = Inr (k2, that') \<longrightarrow>
      K256Pair_ext_verify L depth that signature message =
        Inr (case ecdsa_verify L k2 (K256Pair_ext_hashMessage L message) signature of
               Inl e' \<Rightarrow> False | Inr b \<Rightarrow> b)) \<and>
   (Ed25519Pair_key L depth ed = Inr (k3, ed') \<and> eddsa_verify L k3 message signature = Inr b3 \<longrightarrow>
      Ed25519Pair_verify L depth ed signature message = Inr b3) \<and>
   (length pubKey mod 2 \<noteq> 0 \<longrightarrow> api_verify L sigText message pubKey = Inl AssertionError) \<and>
   (hexToBytes L pubKey = Inr (0xED # rest) \<and> length rest = 32 \<and> length sigText mod 2 \<noteq> 0 \<longrightarrow>
      api_verify L sigText message pubKey = Inl AssertionError)"
proof (intro conjI impI)
  assume "K256Pair_key L depth this = Inl e"
  then show "K256Pair_verify L depth this message signature = Inr False"
    by (simp add: K256Pair_verify_def)
next
  assume "K256Pair_key L depth this = Inr (k, this')"
  then show "K256Pair_verify L depth this message signature =
        Inr (case ecdsa_verify L k (K256Pair_hashMessage L message) signature of
               Inl e' \<Rightarrow> False | Inr b \<Rightarrow> b)"
    by (simp add: K256Pair_verify_def split: sum.splits)
next
  assume "K256Pair_ext_key L depth that = Inl e2"
  then show "K256Pair_ext_verify L depth that signature message = Inr False"
    by (simp add: K256Pair_ext_verify_def)
next
  assume "K256Pair_ext_key L depth that = Inr (k2, that')"
  then show "K256Pair_ext_verify L depth that signature message =
        Inr (case ecdsa_verify L k2 (K256Pair_ext_hashMessage L message) signature of
               Inl e' \<Rightarrow> False | Inr b \<Rightarrow> b)"
    by (simp add: K256Pair_ext_verify_def split: sum.splits)
next
  assume "Ed25519Pair_key L depth ed = Inr (k3, ed') \<and> eddsa_verify L k3 message signature = Inr b3"
  then show "Ed25519Pair_verify L depth ed signature message = Inr b3"
    by (simp add: Ed25519Pair_verify_def)
next
  assume "length pubKey mod 2 \<noteq> 0"
  then show "api_verify L sigText message pubKey = Inl AssertionError"
    by (simp add: api_verify_def getAlgorithmFromKey_def hexToBytes_def)
next
  assume "hexToBytes L pubKey = Inr (0xED # rest) \<and> length rest = 32 \<and> length sigText mod 2 \<noteq> 0"
  then show "api_verify L sigText message pubKey = Inl AssertionError"
    by (simp add: api_verify_def getAlgorithmFromKey_def api_ed25519_verify_def
        hexToBytes_def [of L sigText])
qed

text \<open>
  The pairs of the instance: a class-file pair made from a seed, whose \<open>key()\<close> exhausts
  the stack; a class-file object whose \<open>_key\<close> memo is set; an extendClass pair made
  from the one-byte public key \<open>02\<close>, which is no encoded point; an extendClass pair made
  from a seed, asked about an empty signature and about the digest itself; an ed25519
  pair made from a seed; and two calls of api.js's \<open>verify\<close> with text of odd length.
\<close>

theorem K256Pair_verify_false_on_error_witness:
  "K256Pair_verify demo 1 (K256Pair_fromSeed demo_seed \<lparr>validator = False, accountIndex = None\<rparr>)
     [1] [3] = Inr False \<and>
   K256Pair_verify demo 1
     ((K256Pair_fromSeed demo_seed \<lparr>validator = False, accountIndex = None\<rparr>)
        \<lparr>this__key := Some (KeyFromPrivate 5)\<rparr>) [1] [] = Inr False \<and>
   K256Pair_ext_verify demo 2 (K256Pair_constructor None (Some [2]) None False) [3] [1] = Inr False \<and>
   K256Pair_ext_verify demo 1
     (K256Pair_ext_fromSeed demo_seed \<lparr>validator = False, accountIndex = None\<rparr>) [] [1] = Inr False \<and>
   K256Pair_ext_verify demo 1
     (K256Pair_ext_fromSeed demo_seed \<lparr>validator = False, accountIndex = None\<rparr>)
     (replicate 32 1) [1] = Inr True \<and>
   Ed25519Pair_verify demo 1 (Ed25519Pair_fromSeed demo_seed) (replicate 32 16 @ [1]) [1] = Inr True \<and>
   api_verify demo ''00'' [1] ''ED0'' = Inl AssertionError \<and>
   api_verify demo ''0'' [1] demo_ed_key_text = Inl AssertionError"
proof -
  let ?os = "\<lparr>validator = False, accountIndex = None\<rparr>"
  let ?memo = "(K256Pair_fromSeed demo_seed ?os :: nat K256Pair)\<lparr>this__key := Some (KeyFromPrivate 5)\<rparr>"
  let ?pub = "K256Pair_constructor None (Some [2]) None False :: nat K256Pair"
  let ?seeded = "K256Pair_ext_fromSeed demo_seed ?os :: nat K256Pair"
  have k1: "K256Pair_key demo (Suc 0) (K256Pair_fromSeed demo_seed ?os) = Inl RangeError"
    by (simp add: K256Pair_fromSeed_fields)
  have k2: "K256Pair_key demo (Suc 0) ?memo = Inr (KeyFromPrivate 5, ?memo)"
    by simp
  have k3: "K256Pair_ext_key demo (Suc (Suc 0)) ?pub = Inl (LibraryError ''Unknown point format'')"
    by (simp add: K256Pair_constructor_def hasPrivateKey_def keyFromPublic_def demo_def)
  have k4: "K256Pair_ext_key demo (Suc 0) ?seeded =
      Inr (KeyFromPrivate demo_account_scalar, ?seeded\<lparr>this__key := Some (KeyFromPrivate demo_account_scalar)\<rparr>)"
    by (simp add: K256Pair_ext_key_fromSeed demo_deriveSecret_account del: K256Pair_ext_key.simps)
  obtain ed' where k5: "Ed25519Pair_key demo (Suc 0) (Ed25519Pair_fromSeed demo_seed) =
      Inr (KeyFromSecret (take 32 (sha512 demo demo_seed)), ed')"
    using Ed25519Pair_key_fromSeed [of demo 0 demo_seed] by blast
  have lib_empty: "ecdsa_verify demo kk dd [] = Inl (LibraryError ''Signature without r or s'')" for kk dd
    by (simp add: demo_def)
  have digest: "K256Pair_ext_hashMessage demo [1] = replicate 32 1"
    by (simp add: K256Pair_ext_hashMessage_def Sha512_first256_def Sha512_finish_def
        Sha512_add_def Sha512_new_def demo_def)
  have lib_digest: "ecdsa_verify demo kk (replicate 32 1) (replicate 32 1) = Inr True" for kk
    by (simp add: demo_def replicate_32)
  have lib_ed: "eddsa_verify demo (KeyFromSecret (take 32 (sha512 demo demo_seed))) [1]
      (replicate 32 16 @ [1]) = Inr True"
    by (simp add: demo_sha512_seed) (simp add: demo_def)
  have hx: "hexToBytes demo demo_ed_key_text = Inr (0xED # tl demo_ed_key_bytes)"
    "length (tl demo_ed_key_bytes) = 32"
    by (simp_all add: demo_hexToBytes_ed) (simp_all add: demo_ed_key_bytes_def)
  from K256Pair_verify_false_on_error [where L = demo and depth = "Suc 0"
      and this = "K256Pair_fromSeed demo_seed ?os" and e = RangeError
      and message = "[1]" and signature = "[3]" and pubKey = "''ED0''" and sigText = "''00''"] k1
  have w1: "K256Pair_verify demo 1 (K256Pair_fromSeed demo_seed ?os) [1] [3] = Inr False"
    and w7: "api_verify demo ''00'' [1] ''ED0'' = Inl AssertionError"
    by simp_all
  from K256Pair_verify_false_on_error [where L = demo and depth = "Suc 0"
      and this = ?memo and k = "KeyFromPrivate 5" and this' = ?memo
      and message = "[1]" and signature = "[]"] k2
  have w2: "K256Pair_verify demo 1 ?memo [1] [] = Inr False"
    by (simp add: lib_empty del: K256Pair_key.simps)
  from K256Pair_verify_false_on_error [where L = demo and depth = "Suc (Suc 0)"
      and that = ?pub and ?e2.0 = "LibraryError ''Unknown point format''"
      and message = "[1]" and signature = "[3]"] k3
  have w3: "K256Pair_ext_verify demo 2 ?pub [3] [1] = Inr False"
    by (simp add: numeral_2_eq_2 del: K256Pair_ext_key.simps)
  from K256Pair_verify_false_on_error [where L = demo and depth = "Suc 0"
      and that = ?seeded and ?k2.0 = "KeyFromPrivate demo_account_scalar"
      and that' = "?seeded\<lparr>this__key := Some (KeyFromPrivate demo_account_scalar)\<rparr>"
      and message = "[1]" and signature = "[]"] k4
  have w4: "K256Pair_ext_verify demo 1 ?seeded [] [1] = Inr False"
    by (simp add: lib_empty del: K256Pair_ext_key.simps)
  from K256Pair_verify_false_on_error [where L = demo and depth = "Suc 0"
      and that = ?seeded and ?k2.0 = "KeyFromPrivate demo_account_scalar"
      and that' = "?seeded\<lparr>this__key := Some (KeyFromPrivate demo_account_scalar)\<rparr>"
      and message = "[1]" and signature = "replicate 32 1"] k4
  have w5: "K256Pair_ext_verify demo 1 ?seeded (replicate 32 1) [1] = Inr True"
    by (simp add: digest lib_digest del: K256Pair_ext_key.simps)
  from K256Pair_verify_false_on_error [where L = demo and depth = "Suc 0"
      and ed = "Ed25519Pair_fromSeed demo_seed"
      and ?k3.0 = "KeyFromSecret (take 32 (sha512 demo demo_seed))" and ed' = ed'
      and ?b3.0 = True and message = "[1]" and signature = "replicate 32 16 @ [1]"] k5 lib_ed
  have w6: "Ed25519Pair_verify demo 1 (Ed25519Pair_fromSeed demo_seed) (replicate 32 16 @ [1]) [1] = Inr True"
    by (simp del: Ed25519Pair_key.simps)
  from K256Pair_verify_false_on_error [where L = demo
      and pubKey = demo_ed_key_text and rest = "tl demo_ed_key_bytes" and sigText = "''0''"
      and message = "[1]"] hx
  have w8: "api_verify demo ''0'' [1] demo_ed_key_text = Inl AssertionError"
    by simp
  from w1 w2 w3 w4 w5 w6 w7 w8 show ?thesis
    by blast
qed

end
